theory Spec2Isabelle
  imports Complex_Main
begin

section \<open>Python values\<close>

text \<open>
  A Python \<open>str\<close> is a list of characters; every \<^typ>\<open>char\<close> stands for one code point
  (below 256), so \<^const>\<open>length\<close> is Python's \<open>len\<close>.

  A Python \<open>float\<close> is a binary64 value. A finite one is represented by the rational
  number it denotes (the two zeros are one value, as under Python's \<open>==\<close>).
\<close>

datatype pyfloat = Finite rat | PosInf | NegInf | NaN

text \<open>
  What \<open>response.json()\<close> returns: \<open>None\<close>, \<open>bool\<close>, \<open>int\<close>, \<open>float\<close>, \<open>str\<close>,
  \<open>list\<close> or \<open>dict\<close>. A dict is an association list in insertion order in which the
  first binding of a key is the dict's binding.
\<close>

datatype json =
    JNull
  | JBool bool
  | JInt int
  | JFloat pyfloat
  | JStr string
  | JArr "json list"
  | JObj "(string \<times> json) list"

text \<open>Exceptions. The messages of the source are f-strings; here they keep their parts.\<close>

datatype exn =
    SolanaRPCError rpc_msg
  | HTTPStatusError
  | JSONDecodeError
  | AttributeError
  | TypeError
  | KeyError
  | IndexError
  | ValueError
  | OverflowError
  | ZeroDivisionError
  | ValidationError
and rpc_msg =
    RpcErrorMsg json
  | TimedOut int
  | RequestFailed string
  | MaxRetriesExceeded
  | AddressEmpty
  | SignatureEmpty
  | LimitRange
  | FailedToFetch string exn

text \<open>
  \<^item> \<open>RpcErrorMsg m\<close>: \<open>f"RPC error: {error_msg}"\<close>
  \<^item> \<open>TimedOut n\<close>: \<open>f"RPC request timed out after {self.max_retries} retries"\<close>
  \<^item> \<open>RequestFailed s\<close>: \<open>f"RPC request failed: {str(e)}"\<close>
  \<^item> \<open>MaxRetriesExceeded\<close>: \<open>"Max retries exceeded"\<close>
  \<^item> \<open>AddressEmpty\<close>: \<open>"Address cannot be empty"\<close>
  \<^item> \<open>SignatureEmpty\<close>: \<open>"Signature cannot be empty"\<close>
  \<^item> \<open>LimitRange\<close>: \<open>"Limit must be between 1 and 1000"\<close>
  \<^item> \<open>FailedToFetch what e\<close>: \<open>f"Failed to fetch {what}: {str(e)}"\<close>
\<close>

subsection \<open>Truth value, \<open>len\<close>, \<open>dict.get\<close>, \<open>in\<close>, indexing, iteration\<close>

fun py_truthy :: "json \<Rightarrow> bool" where
  "py_truthy JNull = False"
| "py_truthy (JBool b) = b"
| "py_truthy (JInt n) = (n \<noteq> 0)"
| "py_truthy (JFloat f) = (f \<noteq> Finite 0)"
| "py_truthy (JStr s) = (s \<noteq> [])"
| "py_truthy (JArr xs) = (xs \<noteq> [])"
| "py_truthy (JObj kvs) = (kvs \<noteq> [])"

fun dict_keys :: "(string \<times> json) list \<Rightarrow> string list" where
  "dict_keys [] = []"
| "dict_keys ((k, v) # kvs) = k # filter (\<lambda>k'. k' \<noteq> k) (dict_keys kvs)"

fun py_len :: "json \<Rightarrow> exn + nat" where
  "py_len (JStr s) = Inr (length s)"
| "py_len (JArr xs) = Inr (length xs)"
| "py_len (JObj kvs) = Inr (length (dict_keys kvs))"
| "py_len _ = Inl TypeError"

text \<open>\<open>d.get(key, default)\<close>; an object without \<open>get\<close> raises \<open>AttributeError\<close>.\<close>

fun py_get :: "json \<Rightarrow> string \<Rightarrow> json \<Rightarrow> exn + json" where
  "py_get (JObj kvs) key dflt = Inr (case map_of kvs key of None \<Rightarrow> dflt | Some v \<Rightarrow> v)"
| "py_get _ key dflt = Inl AttributeError"

fun is_prefix :: "string \<Rightarrow> string \<Rightarrow> bool" where
  "is_prefix [] ys = True"
| "is_prefix (x # xs) [] = False"
| "is_prefix (x # xs) (y # ys) = (x = y \<and> is_prefix xs ys)"

fun str_contains :: "string \<Rightarrow> string \<Rightarrow> bool" where
  "str_contains sub [] = (sub = [])"
| "str_contains sub (y # ys) = (is_prefix sub (y # ys) \<or> str_contains sub ys)"

text \<open>\<open>key in data\<close> for a string \<open>key\<close>.\<close>

fun py_in :: "string \<Rightarrow> json \<Rightarrow> exn + bool" where
  "py_in key (JObj kvs) = Inr (key \<in> set (map fst kvs))"
| "py_in key (JArr xs) = Inr (JStr key \<in> set xs)"
| "py_in key (JStr s) = Inr (str_contains key s)"
| "py_in key _ = Inl TypeError"

text \<open>\<open>x[0]\<close>. The keys of a JSON object are strings, so \<open>0\<close> is never one of them.\<close>

fun py_first :: "json \<Rightarrow> exn + json" where
  "py_first (JArr []) = Inl IndexError"
| "py_first (JArr (x # xs)) = Inr x"
| "py_first (JStr []) = Inl IndexError"
| "py_first (JStr (c # cs)) = Inr (JStr [c])"
| "py_first (JObj kvs) = Inl KeyError"
| "py_first _ = Inl TypeError"

text \<open>The items a \<open>for\<close> loop over the value visits.\<close>

fun py_iter :: "json \<Rightarrow> exn + json list" where
  "py_iter (JArr xs) = Inr xs"
| "py_iter (JStr s) = Inr (map (\<lambda>c. JStr [c]) s)"
| "py_iter (JObj kvs) = Inr (map JStr (dict_keys kvs))"
| "py_iter _ = Inl TypeError"

subsection \<open>Floats: true division and \<open>round\<close>\<close>

text \<open>
  Python's \<open>int / int\<close> and its float literals are correctly rounded: the result is the
  binary64 value nearest to the exact quotient, ties to the even significand.
\<close>

definition round_half_even :: "rat \<Rightarrow> int" where
  "round_half_even x =
     (let f = \<lfloor>x\<rfloor>; d = x - of_int f
      in if d < 1 / 2 then f
         else if 1 / 2 < d then f + 1
         else if even f then f else f + 1)"

function bit_length :: "int \<Rightarrow> nat" where
  "bit_length n = (if n \<le> 0 then 0 else Suc (bit_length (n div 2)))"
  by pat_completeness auto
termination
  by (relation "measure nat") auto

declare bit_length.simps [simp del]

definition two_pow :: "int \<Rightarrow> rat" where
  "two_pow k = (if 0 \<le> k then 2 ^ nat k else 1 / 2 ^ nat (- k))"

text \<open>The exponent \<open>e\<close> with \<open>2 ^ e \<le> a < 2 ^ (e + 1)\<close>, for \<open>a > 0\<close>.\<close>

definition binary_exponent :: "rat \<Rightarrow> int" where
  "binary_exponent a =
     (let (n, d) = quotient_of a;
          k = int (bit_length n) - int (bit_length d)
      in if two_pow k \<le> a then k else k - 1)"

text \<open>The binary64 value nearest to a rational; \<open>None\<close> when it is beyond the finite range.\<close>

definition round_to_double :: "rat \<Rightarrow> rat option" where
  "round_to_double q =
     (if q = 0 then Some 0
      else let a = \<bar>q\<bar>;
               u = max (binary_exponent a - 52) (- 1074);
               v = of_int (round_half_even (a / two_pow u)) * two_pow u
           in if two_pow 1024 \<le> v then None
              else Some (if q < 0 then - v else v))"

definition py_truediv :: "int \<Rightarrow> int \<Rightarrow> exn + pyfloat" where
  "py_truediv a b =
     (if b = 0 then Inl ZeroDivisionError
      else case round_to_double (of_int a / of_int b) of
             None \<Rightarrow> Inl OverflowError
           | Some v \<Rightarrow> Inr (Finite v))"

text \<open>The value of a decimal float literal such as \<open>1.42\<close>, given as a rational.\<close>

definition float_literal :: "rat \<Rightarrow> pyfloat" where
  "float_literal q = (case round_to_double q of None \<Rightarrow> PosInf | Some v \<Rightarrow> Finite v)"

text \<open>
  \<open>round(x, ndigits)\<close> for a float and \<open>0 \<le> ndigits\<close>: the exact value is rounded to
  \<open>ndigits\<close> decimals, ties to even, and the decimal is converted back to binary64.
\<close>

definition py_round :: "pyfloat \<Rightarrow> nat \<Rightarrow> exn + pyfloat" where
  "py_round x ndigits =
     (case x of
        Finite v \<Rightarrow>
          (case round_to_double (of_int (round_half_even (v * 10 ^ ndigits)) / 10 ^ ndigits) of
             None \<Rightarrow> Inl OverflowError
           | Some w \<Rightarrow> Inr (Finite w))
      | _ \<Rightarrow> Inr x)"

subsection \<open>Library behaviour that is taken as given\<close>

text \<open>An aware UTC \<open>datetime\<close>: microseconds since the epoch.\<close>

datatype datetime = Datetime int

text \<open>
  Three conversions of the standard library and of pydantic are parameters of the model:
  \<^item> \<open>int_of_str s\<close>: \<open>int(s)\<close> for a \<open>str\<close> (\<open>None\<close>: \<open>ValueError\<close>);
  \<^item> \<open>float_timestamp f\<close>: \<open>datetime.fromtimestamp(f, tz=timezone.utc)\<close> for a \<open>float\<close>;
  \<^item> \<open>int_field v\<close>: pydantic's validation of an \<open>int\<close> field (\<open>None\<close>: \<open>ValidationError\<close>).
\<close>

record library =
  int_of_str :: "string \<Rightarrow> int option"
  float_timestamp :: "pyfloat \<Rightarrow> exn + datetime"
  int_field :: "json \<Rightarrow> int option"

definition trunc :: "rat \<Rightarrow> int" where
  "trunc r = (if 0 \<le> r then \<lfloor>r\<rfloor> else \<lceil>r\<rceil>)"

text \<open>\<open>int(x)\<close>.\<close>

fun py_int :: "library \<Rightarrow> json \<Rightarrow> exn + int" where
  "py_int L JNull = Inl TypeError"
| "py_int L (JBool b) = Inr (if b then 1 else 0)"
| "py_int L (JInt n) = Inr n"
| "py_int L (JFloat (Finite r)) = Inr (trunc r)"
| "py_int L (JFloat NaN) = Inl ValueError"
| "py_int L (JFloat _) = Inl OverflowError"
| "py_int L (JStr s) = (case int_of_str L s of None \<Rightarrow> Inl ValueError | Some n \<Rightarrow> Inr n)"
| "py_int L (JArr xs) = Inl TypeError"
| "py_int L (JObj kvs) = Inl TypeError"

text \<open>
  \<open>datetime.fromtimestamp(t, tz=timezone.utc)\<close>. The years 1 to 9999 are the timestamps
  from \<open>MIN_TIMESTAMP\<close> to \<open>MAX_TIMESTAMP\<close>; outside them the call raises (\<open>ValueError\<close>,
  \<open>OverflowError\<close> or \<open>OSError\<close>, by size and platform; here always \<open>ValueError\<close>).
\<close>

definition MIN_TIMESTAMP :: int where
  "MIN_TIMESTAMP = - 62135596800"

definition MAX_TIMESTAMP :: int where
  "MAX_TIMESTAMP = 253402300799"

definition int_timestamp :: "int \<Rightarrow> exn + datetime" where
  "int_timestamp n =
     (if MIN_TIMESTAMP \<le> n \<and> n \<le> MAX_TIMESTAMP then Inr (Datetime (n * 1000000))
      else Inl ValueError)"

fun fromtimestamp :: "library \<Rightarrow> json \<Rightarrow> exn + datetime" where
  "fromtimestamp L (JInt n) = int_timestamp n"
| "fromtimestamp L (JBool b) = int_timestamp (if b then 1 else 0)"
| "fromtimestamp L (JFloat f) = float_timestamp L f"
| "fromtimestamp L _ = Inl TypeError"

section \<open>app/config.py\<close>

definition LAMPORTS_PER_SOL :: int where
  "LAMPORTS_PER_SOL = 1000000000"

definition MAX_TRANSACTION_LIMIT :: int where
  "MAX_TRANSACTION_LIMIT = 1000"

definition DEFAULT_TRANSACTION_LIMIT :: int where
  "DEFAULT_TRANSACTION_LIMIT = 10"

section \<open>app/services/solana.py\<close>

subsection \<open>The network\<close>

text \<open>
  The body of one JSON-RPC request, and what one \<open>client.post\<close> with
  \<open>raise_for_status\<close> and \<open>response.json()\<close> can come to:
  \<^item> \<open>Timeout\<close>: \<open>post\<close> raises \<open>httpx.TimeoutException\<close>;
  \<^item> \<open>RequestFailure s\<close>: \<open>post\<close> raises another \<open>httpx.RequestError\<close>, \<open>s\<close> its text;
  \<^item> \<open>BadStatus\<close>: the status is not 2xx, \<open>raise_for_status\<close> raises
    \<open>httpx.HTTPStatusError\<close> (a subclass of \<open>httpx.HTTPError\<close>, not of
    \<open>httpx.RequestError\<close>);
  \<^item> \<open>NotJson\<close>: \<open>response.json()\<close> raises \<open>json.JSONDecodeError\<close>;
  \<^item> \<open>Body data\<close>: a 2xx response with the JSON value \<open>data\<close>.

  The network is any function of the number of requests sent before and of the request.
  The trace is the list of requests sent so far, oldest first.
\<close>

record payload =
  jsonrpc :: string
  ident :: int
  rpc_method :: string
  params :: "json list"

datatype http_result =
    Timeout
  | RequestFailure string
  | BadStatus
  | NotJson
  | Body json

type_synonym network = "nat \<Rightarrow> payload \<Rightarrow> http_result"

type_synonym trace = "payload list"

record SolanaClient =
  rpc_url :: string
  timeout :: int
  max_retries :: int

subsection \<open>\<open>_call_rpc\<close>\<close>

text \<open>Lines 69 to 77: the JSON body \<open>data\<close> of a 2xx response.\<close>

definition check_rpc_errors :: "json \<Rightarrow> exn + json" where
  "check_rpc_errors data =
     (case py_in ''error'' data of
        Inl e \<Rightarrow> Inl e
      | Inr True \<Rightarrow>
          (case py_get data ''error'' (JObj []) of
             Inl e \<Rightarrow> Inl e
           | Inr err \<Rightarrow>
               (case py_get err ''message'' (JStr ''Unknown error'') of
                  Inl e \<Rightarrow> Inl e
                | Inr error_msg \<Rightarrow> Inl (SolanaRPCError (RpcErrorMsg error_msg))))
      | Inr False \<Rightarrow> py_get data ''result'' JNull)"

text \<open>The \<open>while retry_count < self.max_retries\<close> loop, from one value of \<open>retry_count\<close>.\<close>

function call_rpc_loop ::
  "network \<Rightarrow> SolanaClient \<Rightarrow> payload \<Rightarrow> int \<Rightarrow> trace \<Rightarrow> (exn + json) \<times> trace" where
  "call_rpc_loop net self p retry_count tr =
     (if retry_count < max_retries self then
        (case net (length tr) p of
           Body data \<Rightarrow> (check_rpc_errors data, tr @ [p])
         | NotJson \<Rightarrow> (Inl JSONDecodeError, tr @ [p])
         | BadStatus \<Rightarrow> (Inl HTTPStatusError, tr @ [p])
         | Timeout \<Rightarrow>
             (if max_retries self \<le> retry_count + 1
              then (Inl (SolanaRPCError (TimedOut (max_retries self))), tr @ [p])
              else call_rpc_loop net self p (retry_count + 1) (tr @ [p]))
         | RequestFailure s \<Rightarrow>
             (if max_retries self \<le> retry_count + 1
              then (Inl (SolanaRPCError (RequestFailed s)), tr @ [p])
              else call_rpc_loop net self p (retry_count + 1) (tr @ [p])))
      else (Inl (SolanaRPCError MaxRetriesExceeded), tr))"
  by pat_completeness auto
termination
  by (relation "measure (\<lambda>(net, self, p, retry_count, tr). nat (max_retries self - retry_count))")
    auto

declare call_rpc_loop.simps [simp del]

definition call_rpc ::
  "network \<Rightarrow> SolanaClient \<Rightarrow> string \<Rightarrow> json list option \<Rightarrow> trace \<Rightarrow> (exn + json) \<times> trace" where
  "call_rpc net self method ps tr =
     call_rpc_loop net self
       \<lparr>jsonrpc = ''2.0'', ident = 1, rpc_method = method,
        params = (case ps of None \<Rightarrow> [] | Some xs \<Rightarrow> xs)\<rparr> 0 tr"

text \<open>
  \<open>except SolanaRPCError: raise\<close> and
  \<open>except Exception as e: raise SolanaRPCError(f"Failed to fetch {what}: {str(e)}")\<close>.
\<close>

fun reraise :: "string \<Rightarrow> exn + 'a \<Rightarrow> exn + 'a" where
  "reraise what (Inr v) = Inr v"
| "reraise what (Inl (SolanaRPCError m)) = Inl (SolanaRPCError m)"
| "reraise what (Inl e) = Inl (SolanaRPCError (FailedToFetch what e))"

subsection \<open>\<open>get_balance\<close>\<close>

definition get_balance ::
  "library \<Rightarrow> network \<Rightarrow> SolanaClient \<Rightarrow> string \<Rightarrow> trace \<Rightarrow> (exn + int) \<times> trace" where
  "get_balance L net self address tr =
     (if address = [] then (Inl (SolanaRPCError AddressEmpty), tr)
      else case call_rpc net self ''getBalance'' (Some [JStr address]) tr of
        (Inl e, tr') \<Rightarrow> (reraise ''balance'' (Inl e), tr')
      | (Inr result, tr') \<Rightarrow>
          (reraise ''balance''
             (case result of
                JNull \<Rightarrow> Inr 0
              | JObj kvs \<Rightarrow>
                  (case py_get result ''value'' (JInt 0) of
                     Inl e \<Rightarrow> Inl e
                   | Inr v \<Rightarrow> py_int L v)
              | _ \<Rightarrow> py_int L result), tr'))"

subsection \<open>\<open>get_transaction_count\<close>\<close>

definition get_transaction_count ::
  "network \<Rightarrow> SolanaClient \<Rightarrow> string \<Rightarrow> trace \<Rightarrow> (exn + int) \<times> trace" where
  "get_transaction_count net self address tr =
     (if address = [] then (Inl (SolanaRPCError AddressEmpty), tr)
      else case call_rpc net self ''getSignaturesForAddress''
                  (Some [JStr address, JObj [(''limit'', JInt 1000)]]) tr of
        (Inl e, tr') \<Rightarrow> (reraise ''transaction count'' (Inl e), tr')
      | (Inr signatures, tr') \<Rightarrow>
          (reraise ''transaction count''
             (if py_truthy signatures
              then (case py_len signatures of Inl e \<Rightarrow> Inl e | Inr n \<Rightarrow> Inr (int n))
              else Inr 0), tr'))"

subsection \<open>\<open>get_signatures\<close>\<close>

definition get_signatures ::
  "network \<Rightarrow> SolanaClient \<Rightarrow> string \<Rightarrow> int \<Rightarrow> trace \<Rightarrow> (exn + json) \<times> trace" where
  "get_signatures net self address limit tr =
     (if address = [] then (Inl (SolanaRPCError AddressEmpty), tr)
      else if limit < 1 \<or> 1000 < limit then (Inl (SolanaRPCError LimitRange), tr)
      else case call_rpc net self ''getSignaturesForAddress''
                  (Some [JStr address, JObj [(''limit'', JInt limit)]]) tr of
        (Inl e, tr') \<Rightarrow> (reraise ''signatures'' (Inl e), tr')
      | (Inr result, tr') \<Rightarrow> (Inr (if py_truthy result then result else JArr []), tr'))"

subsection \<open>\<open>get_transaction_details\<close>\<close>

definition get_transaction_details ::
  "network \<Rightarrow> SolanaClient \<Rightarrow> json \<Rightarrow> trace \<Rightarrow> (exn + json) \<times> trace" where
  "get_transaction_details net self signature tr =
     (if \<not> py_truthy signature then (Inl (SolanaRPCError SignatureEmpty), tr)
      else case call_rpc net self ''getTransaction''
                  (Some [signature, JObj [(''encoding'', JStr ''json'')]]) tr of
        (Inl e, tr') \<Rightarrow> (reraise ''transaction'' (Inl e), tr')
      | (Inr result, tr') \<Rightarrow> (Inr result, tr'))"

subsection \<open>\<open>lamports_to_sol\<close> and \<open>timestamp_to_datetime\<close>\<close>

definition lamports_to_sol :: "int \<Rightarrow> exn + pyfloat" where
  "lamports_to_sol lamports = py_truediv lamports LAMPORTS_PER_SOL"

definition timestamp_to_datetime :: "library \<Rightarrow> json \<Rightarrow> exn + datetime option" where
  "timestamp_to_datetime L timestamp =
     (if timestamp = JNull then Inr None
      else case fromtimestamp L timestamp of
             Inl e \<Rightarrow> Inl e
           | Inr d \<Rightarrow> Inr (Some d))"

section \<open>app/models/schemas.py\<close>

text \<open>
  A pydantic model is a record and a constructor that validates. A value that already
  has the type of its field (a \<open>str\<close>, \<open>int\<close>, \<open>float\<close> or \<open>datetime\<close> of the program) is
  accepted as it is; a value taken from an RPC reply goes through the field's validation;
  a \<open>ValueError\<close> of a field validator is a \<open>ValidationError\<close> of the constructor.
\<close>

definition base58_chars :: string where
  "base58_chars = ''123456789ABCDEFGHJKLMNPQRSTUVWXYZabcdefghijkmnopqrstuvwxyz''"

definition validate_address :: "string \<Rightarrow> exn + string" where
  "validate_address v =
     (if v = [] then Inl ValueError
      else if length v < 32 \<or> 44 < length v then Inl ValueError
      else if \<not> list_all (\<lambda>c. c \<in> set base58_chars) v then Inl ValueError
      else Inr v)"

record WalletSummary =
  address :: string
  balance :: pyfloat
  balance_lamports :: int
  tx_count :: int
  last_active :: "datetime option"

record Transaction =
  signature :: string
  block_time :: datetime
  slot :: int
  status :: string
  fee :: int

record TransactionList =
  wallet_address :: string
  transactions :: "Transaction list"
  count :: int

definition new_WalletSummary ::
  "string \<Rightarrow> pyfloat \<Rightarrow> int \<Rightarrow> int \<Rightarrow> datetime option \<Rightarrow> exn + WalletSummary" where
  "new_WalletSummary a b bl n la =
     (case validate_address a of
        Inl e \<Rightarrow> Inl ValidationError
      | Inr v \<Rightarrow>
          Inr \<lparr>address = v, balance = b, balance_lamports = bl, tx_count = n,
               last_active = la\<rparr>)"

text \<open>A \<open>str\<close> field takes a \<open>str\<close> and no other JSON value.\<close>

definition new_Transaction ::
  "library \<Rightarrow> json \<Rightarrow> datetime \<Rightarrow> json \<Rightarrow> string \<Rightarrow> json \<Rightarrow> exn + Transaction" where
  "new_Transaction L sg bt sl st fe =
     (case sg of
        JStr s \<Rightarrow>
          (case int_field L sl of
             None \<Rightarrow> Inl ValidationError
           | Some sl' \<Rightarrow>
               (case int_field L fe of
                  None \<Rightarrow> Inl ValidationError
                | Some fe' \<Rightarrow>
                    Inr \<lparr>signature = s, block_time = bt, slot = sl', status = st,
                         fee = fe'\<rparr>))
      | _ \<Rightarrow> Inl ValidationError)"

definition new_TransactionList ::
  "string \<Rightarrow> Transaction list \<Rightarrow> int \<Rightarrow> exn + TransactionList" where
  "new_TransactionList a ts n =
     (case validate_address a of
        Inl e \<Rightarrow> Inl ValidationError
      | Inr v \<Rightarrow> Inr \<lparr>wallet_address = v, transactions = ts, count = n\<rparr>)"

section \<open>app/routers/wallet.py\<close>

text \<open>
  \<^item> \<open>InvalidAddress n\<close>:
    \<open>f"Invalid Solana address. Address must be 32-44 characters, got {len(address)}"\<close>
  \<^item> \<open>RpcFailure m\<close>: \<open>f"Solana RPC error: {str(e)}"\<close>
  \<^item> \<open>InternalError e\<close>: \<open>f"Internal server error: {str(e)}"\<close>
\<close>

datatype detail =
    InvalidAddress nat
  | RpcFailure rpc_msg
  | InternalError exn

datatype http_exception = HTTPException (status_code: nat) (detail: detail)

text \<open>
  The handlers of both endpoints: \<open>except SolanaRPCError\<close> gives 503 and
  \<open>except Exception\<close> gives 500 (nothing inside the \<open>try\<close> raises an \<open>HTTPException\<close>).
\<close>

fun to_http :: "exn + 'a \<Rightarrow> http_exception + 'a" where
  "to_http (Inr v) = Inr v"
| "to_http (Inl (SolanaRPCError m)) = Inl (HTTPException 503 (RpcFailure m))"
| "to_http (Inl e) = Inl (HTTPException 500 (InternalError e))"

subsection \<open>\<open>get_wallet_summary\<close>\<close>

text \<open>Lines 57 to 62.\<close>

definition find_last_active :: "library \<Rightarrow> json \<Rightarrow> exn + datetime option" where
  "find_last_active L signatures =
     (if \<not> py_truthy signatures then Inr None
      else case py_len signatures of
        Inl e \<Rightarrow> Inl e
      | Inr n \<Rightarrow>
          if \<not> 0 < n then Inr None
          else case py_first signatures of
            Inl e \<Rightarrow> Inl e
          | Inr first \<Rightarrow>
              (case py_get first ''blockTime'' JNull of
                 Inl e \<Rightarrow> Inl e
               | Inr bt \<Rightarrow>
                   if py_truthy bt then timestamp_to_datetime L bt else Inr None))"

text \<open>Lines 64 to 73.\<close>

definition build_summary ::
  "string \<Rightarrow> int \<Rightarrow> int \<Rightarrow> datetime option \<Rightarrow> exn + WalletSummary" where
  "build_summary a bl n la =
     (case lamports_to_sol bl of
        Inl e \<Rightarrow> Inl e
      | Inr balance_sol \<Rightarrow>
          (case py_round balance_sol 9 of
             Inl e \<Rightarrow> Inl e
           | Inr b \<Rightarrow> new_WalletSummary a b bl n la))"

text \<open>The body of the \<open>try\<close>, lines 47 to 73.\<close>

definition summary_body ::
  "library \<Rightarrow> network \<Rightarrow> SolanaClient \<Rightarrow> string \<Rightarrow> trace \<Rightarrow> (exn + WalletSummary) \<times> trace" where
  "summary_body L net self a tr =
     (case get_balance L net self a tr of
        (Inl e, tr1) \<Rightarrow> (Inl e, tr1)
      | (Inr bl, tr1) \<Rightarrow>
          (case get_signatures net self a 1 tr1 of
             (Inl e, tr2) \<Rightarrow> (Inl e, tr2)
           | (Inr signatures, tr2) \<Rightarrow>
               (case get_transaction_count net self a tr2 of
                  (Inl e, tr3) \<Rightarrow> (Inl e, tr3)
                | (Inr n, tr3) \<Rightarrow>
                    (case find_last_active L signatures of
                       Inl e \<Rightarrow> (Inl e, tr3)
                     | Inr la \<Rightarrow> (build_summary a bl n la, tr3)))))"

definition get_wallet_summary ::
  "library \<Rightarrow> network \<Rightarrow> SolanaClient \<Rightarrow> string \<Rightarrow> trace
     \<Rightarrow> (http_exception + WalletSummary) \<times> trace" where
  "get_wallet_summary L net self a tr =
     (if a = [] \<or> length a < 32 \<or> 44 < length a
      then (Inl (HTTPException 400 (InvalidAddress (length a))), tr)
      else case summary_body L net self a tr of (r, tr') \<Rightarrow> (to_http r, tr'))"

subsection \<open>\<open>get_wallet_transactions\<close>\<close>

text \<open>Lines 148 to 170: the record of one signature entry whose details were fetched.\<close>

definition build_transaction :: "library \<Rightarrow> json \<Rightarrow> json \<Rightarrow> json \<Rightarrow> exn + Transaction" where
  "build_transaction L sig_data sg tx_details =
     (case py_get tx_details ''meta'' (JObj []) of
        Inl e \<Rightarrow> Inl e
      | Inr meta \<Rightarrow>
     (case (if py_truthy meta then py_get meta ''fee'' (JInt 0) else Inr (JInt 0)) of
        Inl e \<Rightarrow> Inl e
      | Inr fe \<Rightarrow>
     (case (if py_truthy meta then py_get meta ''err'' JNull else Inr JNull) of
        Inl e \<Rightarrow> Inl e
      | Inr err \<Rightarrow>
     (case py_get sig_data ''blockTime'' JNull of
        Inl e \<Rightarrow> Inl e
      | Inr bt \<Rightarrow>
     (case timestamp_to_datetime L bt of
        Inl e \<Rightarrow> Inl e
      | Inr block_time_dt \<Rightarrow>
     (case py_get sig_data ''slot'' (JInt 0) of
        Inl e \<Rightarrow> Inl e
      | Inr sl \<Rightarrow>
     (case (case block_time_dt of
              Some d \<Rightarrow> Inr (Some d)
            | None \<Rightarrow> timestamp_to_datetime L (JInt 0)) of
        Inl e \<Rightarrow> Inl e
      | Inr None \<Rightarrow> Inl ValidationError
      | Inr (Some d) \<Rightarrow>
          new_Transaction L sg d sl (if py_truthy err then ''failed'' else ''success'') fe)))))))"

text \<open>
  The body of the inner \<open>try\<close>, lines 139 to 171, for one entry: \<open>Inr None\<close> is
  \<open>continue\<close>, \<open>Inr (Some t)\<close> appends \<open>t\<close>, \<open>Inl e\<close> raises \<open>e\<close>.
\<close>

definition process_signature ::
  "library \<Rightarrow> network \<Rightarrow> SolanaClient \<Rightarrow> json \<Rightarrow> trace
     \<Rightarrow> (exn + Transaction option) \<times> trace" where
  "process_signature L net self sig_data tr =
     (case py_get sig_data ''signature'' JNull of
        Inl e \<Rightarrow> (Inl e, tr)
      | Inr sg \<Rightarrow>
          if \<not> py_truthy sg then (Inr None, tr)
          else case get_transaction_details net self sg tr of
            (Inl e, tr') \<Rightarrow> (Inl e, tr')
          | (Inr tx_details, tr') \<Rightarrow>
              if tx_details = JNull then (Inr None, tr')
              else (case build_transaction L sig_data sg tx_details of
                      Inl e \<Rightarrow> (Inl e, tr')
                    | Inr t \<Rightarrow> (Inr (Some t), tr')))"

text \<open>
  The \<open>for\<close> loop. Its \<open>except Exception\<close> handler formats
  \<open>sig_data.get('signature')\<close> into the log line before it continues, and that call raises
  in the handler when the entry has no \<open>get\<close>.
\<close>

fun transactions_loop ::
  "library \<Rightarrow> network \<Rightarrow> SolanaClient \<Rightarrow> json list \<Rightarrow> Transaction list \<Rightarrow> trace
     \<Rightarrow> (exn + Transaction list) \<times> trace" where
  "transactions_loop L net self [] acc tr = (Inr acc, tr)"
| "transactions_loop L net self (sig_data # rest) acc tr =
     (case process_signature L net self sig_data tr of
        (Inr None, tr') \<Rightarrow> transactions_loop L net self rest acc tr'
      | (Inr (Some t), tr') \<Rightarrow> transactions_loop L net self rest (acc @ [t]) tr'
      | (Inl e, tr') \<Rightarrow>
          (case py_get sig_data ''signature'' JNull of
             Inl e' \<Rightarrow> (Inl e', tr')
           | Inr logged \<Rightarrow> transactions_loop L net self rest acc tr'))"

text \<open>The body of the outer \<open>try\<close>, lines 124 to 184.\<close>

definition transactions_body ::
  "library \<Rightarrow> network \<Rightarrow> SolanaClient \<Rightarrow> string \<Rightarrow> int \<Rightarrow> trace
     \<Rightarrow> (exn + TransactionList) \<times> trace" where
  "transactions_body L net self a limit tr =
     (case get_signatures net self a limit tr of
        (Inl e, tr1) \<Rightarrow> (Inl e, tr1)
      | (Inr signatures, tr1) \<Rightarrow>
          if \<not> py_truthy signatures then (new_TransactionList a [] 0, tr1)
          else case py_iter signatures of
            Inl e \<Rightarrow> (Inl e, tr1)
          | Inr entries \<Rightarrow>
              (case transactions_loop L net self entries [] tr1 of
                 (Inl e, tr2) \<Rightarrow> (Inl e, tr2)
               | (Inr ts, tr2) \<Rightarrow> (new_TransactionList a ts (int (length ts)), tr2)))"

text \<open>
  FastAPI calls the function with \<open>1 \<le> limit \<le> MAX_TRANSACTION_LIMIT\<close> only (the
  \<open>Query\<close> bounds); the body is modelled for every \<open>limit\<close>.
\<close>

definition get_wallet_transactions ::
  "library \<Rightarrow> network \<Rightarrow> SolanaClient \<Rightarrow> string \<Rightarrow> int \<Rightarrow> trace
     \<Rightarrow> (http_exception + TransactionList) \<times> trace" where
  "get_wallet_transactions L net self a limit tr =
     (if a = [] \<or> length a < 32 \<or> 44 < length a
      then (Inl (HTTPException 400 (InvalidAddress (length a))), tr)
      else case transactions_body L net self a limit tr of (r, tr') \<Rightarrow> (to_http r, tr'))"

section \<open>Specification vocabulary\<close>

text \<open>A timeout or another transport-level request failure: what \<open>_call_rpc\<close> retries.\<close>

definition transport_failure :: "http_result \<Rightarrow> bool" where
  "transport_failure r = (case r of Timeout \<Rightarrow> True | RequestFailure s \<Rightarrow> True | _ \<Rightarrow> False)"

text \<open>The request that \<open>_call_rpc(method, params)\<close> posts.\<close>

definition rpc_payload :: "string \<Rightarrow> json list \<Rightarrow> payload" where
  "rpc_payload method ps = \<lparr>jsonrpc = ''2.0'', ident = 1, rpc_method = method, params = ps\<rparr>"

text \<open>
  The outcome of every entry of the \<open>for\<close> loop in turn (each entry starts from the trace
  the one before it left), the trace after the last one, and the records of the entries
  that were appended.
\<close>

fun entry_outcomes ::
  "library \<Rightarrow> network \<Rightarrow> SolanaClient \<Rightarrow> json list \<Rightarrow> trace \<Rightarrow> (exn + Transaction option) list" where
  "entry_outcomes L net self [] tr = []"
| "entry_outcomes L net self (sig_data # rest) tr =
     fst (process_signature L net self sig_data tr)
       # entry_outcomes L net self rest (snd (process_signature L net self sig_data tr))"

fun entries_trace :: "library \<Rightarrow> network \<Rightarrow> SolanaClient \<Rightarrow> json list \<Rightarrow> trace \<Rightarrow> trace" where
  "entries_trace L net self [] tr = tr"
| "entries_trace L net self (sig_data # rest) tr =
     entries_trace L net self rest (snd (process_signature L net self sig_data tr))"

fun survivors :: "(exn + Transaction option) list \<Rightarrow> Transaction list" where
  "survivors [] = []"
| "survivors (Inr (Some t) # rs) = t # survivors rs"
| "survivors (r # rs) = survivors rs"

fun is_object :: "json \<Rightarrow> bool" where
  "is_object (JObj kvs) = True"
| "is_object _ = False"

text \<open>
  The \<open>meta.err\<close> field of a transaction detail as the specification reads it: the value
  under \<open>err\<close> of the object under \<open>meta\<close>, and \<open>None\<close> when either is missing.
\<close>

definition meta_err :: "json \<Rightarrow> json" where
  "meta_err tx_details =
     (case tx_details of
        JObj kvs \<Rightarrow>
          (case map_of kvs ''meta'' of
             Some (JObj m) \<Rightarrow> (case map_of m ''err'' of Some e \<Rightarrow> e | None \<Rightarrow> JNull)
           | _ \<Rightarrow> JNull)
      | _ \<Rightarrow> JNull)"

section \<open>Example environments\<close>

text \<open>The client with the defaults of \<open>Settings\<close>.\<close>

definition default_client :: SolanaClient where
  "default_client =
     \<lparr>rpc_url = ''https://api.mainnet-beta.solana.com'', timeout = 30, max_retries = 3\<rparr>"

text \<open>A library that converts nothing: only an \<open>int\<close> is an \<open>int\<close>.\<close>

definition strict_library :: library where
  "strict_library =
     \<lparr>int_of_str = (\<lambda>s. None),
      float_timestamp = (\<lambda>f. Inl ValueError),
      int_field = (\<lambda>v. case v of JInt n \<Rightarrow> Some n | _ \<Rightarrow> None)\<rparr>"

definition example_address :: string where
  "example_address = ''7xKXtg2CW87d97TXJSDpbD5jBkheTqA83TZRuJosgAsU''"

text \<open>The same with \<open>0\<close> for its first character: 44 characters, not base58.\<close>

definition zero_address :: string where
  "zero_address = ''0xKXtg2CW87d97TXJSDpbD5jBkheTqA83TZRuJosgAsU''"

definition rpc_result :: "json \<Rightarrow> http_result" where
  "rpc_result v = Body (JObj [(''jsonrpc'', JStr ''2.0''), (''result'', v), (''id'', JInt 1)])"

definition rpc_error :: "int \<Rightarrow> string \<Rightarrow> http_result" where
  "rpc_error c m =
     Body (JObj [(''jsonrpc'', JStr ''2.0''),
                 (''error'', JObj [(''code'', JInt c), (''message'', JStr m)]),
                 (''id'', JInt 1)])"

definition signature_entry :: "string \<Rightarrow> int \<Rightarrow> json \<Rightarrow> json" where
  "signature_entry s sl bt =
     JObj [(''signature'', JStr s), (''slot'', JInt sl), (''err'', JNull), (''blockTime'', bt)]"

definition three_entries :: "json list" where
  "three_entries =
     [signature_entry ''S1'' 30 (JInt 1768000000),
      signature_entry ''S2'' 20 (JInt 1767000000),
      signature_entry ''S3'' 10 JNull]"

definition transaction_detail :: "int \<Rightarrow> json \<Rightarrow> json" where
  "transaction_detail f e = JObj [(''slot'', JInt 30), (''meta'', JObj [(''err'', e), (''fee'', JInt f)])]"

text \<open>
  A wallet with three signatures; the upstream honours \<open>limit\<close>, and answers the detail
  request for \<open>S2\<close> with an RPC error.
\<close>

definition wallet_network :: network where
  "wallet_network i p =
     (if rpc_method p = ''getBalance''
      then rpc_result (JObj [(''context'', JObj [(''slot'', JInt 1)]), (''value'', JInt 1420000000)])
      else if rpc_method p = ''getSignaturesForAddress''
      then (case params p of
              [a, JObj [(k, JInt l)]] \<Rightarrow>
                if 1 \<le> l then rpc_result (JArr (take (nat l) three_entries))
                else rpc_error (- 32602) ''Invalid params''
            | _ \<Rightarrow> rpc_error (- 32602) ''Invalid params'')
      else if rpc_method p = ''getTransaction''
      then (if take 1 (params p) = [JStr ''S2'']
            then rpc_error (- 32000) ''Transaction unavailable''
            else rpc_result (transaction_detail 5000 JNull))
      else rpc_error (- 32601) ''Method not found'')"

text \<open>A wallet without history.\<close>

definition empty_network :: network where
  "empty_network i p =
     (if rpc_method p = ''getBalance''
      then rpc_result (JObj [(''context'', JObj [(''slot'', JInt 1)])])
      else rpc_result (JArr []))"

text \<open>A wallet whose only signature has the block time 0.\<close>

definition epoch_network :: network where
  "epoch_network i p =
     (if rpc_method p = ''getBalance'' then rpc_result JNull
      else rpc_result (JArr [signature_entry ''S1'' 30 (JInt 0)]))"

text \<open>Networks with failures.\<close>

definition timeout_network :: network where
  "timeout_network i p = Timeout"

definition bad_status_network :: network where
  "bad_status_network i p = BadStatus"

definition flaky_network :: network where
  "flaky_network i p =
     (if i = 0 then RequestFailure ''All connection attempts failed''
      else rpc_error (- 32602) ''Invalid param: WrongSize'')"

text \<open>
  An upstream whose signature list has an entry that is not an object, between two
  well-formed ones; every detail request is answered.
\<close>

definition malformed_network :: network where
  "malformed_network i p =
     (if rpc_method p = ''getSignaturesForAddress''
      then rpc_result
             (JArr [signature_entry ''S1'' 30 (JInt 1768000000), JInt 7,
                    signature_entry ''S3'' 10 JNull])
      else rpc_result (transaction_detail 5000 JNull))"

section \<open>Properties of the retry loop\<close>

lemma loop_skip_failures:
  "\<forall>i<k. transport_failure (net (length tr + i) p) \<Longrightarrow> retry_count + int k < max_retries self \<Longrightarrow>
   call_rpc_loop net self p retry_count tr =
   call_rpc_loop net self p (retry_count + int k) (tr @ replicate k p)"
proof (induction k arbitrary: retry_count tr)
  case 0
  then show ?case by simp
next
  case (Suc k)
  have f0: "transport_failure (net (length tr) p)"
    using Suc.prems(1) by (metis add.right_neutral zero_less_Suc)
  have step: "call_rpc_loop net self p retry_count tr =
      call_rpc_loop net self p (retry_count + 1) (tr @ [p])"
    using f0 Suc.prems(2)
    by (subst call_rpc_loop.simps) (auto simp: transport_failure_def split: http_result.splits)
  have rest: "\<forall>i<k. transport_failure (net (length (tr @ [p]) + i) p)"
    using Suc.prems(1) by (auto dest: spec [where x = "Suc i" for i])
  have ih: "call_rpc_loop net self p (retry_count + 1) (tr @ [p]) =
      call_rpc_loop net self p (retry_count + 1 + int k) ((tr @ [p]) @ replicate k p)"
    using Suc.prems(2) by (intro Suc.IH [OF rest]) simp
  have e: "retry_count + 1 + int k = retry_count + int (Suc k)" by simp
  have t: "(tr @ [p]) @ replicate k p = tr @ replicate (Suc k) p" by simp
  show ?case
    using step ih unfolding e t by simp
qed

lemma loop_last_failure:
  assumes "retry_count < max_retries self" "max_retries self \<le> retry_count + 1"
    and "transport_failure (net (length tr) p)"
  shows "call_rpc_loop net self p retry_count tr =
    (Inl (SolanaRPCError
       (case net (length tr) p of
          RequestFailure s \<Rightarrow> RequestFailed s
        | _ \<Rightarrow> TimedOut (max_retries self))), tr @ [p])"
  using assms
  by (subst call_rpc_loop.simps) (auto simp: transport_failure_def split: http_result.splits)

lemma loop_trace:
  "\<exists>k. snd (call_rpc_loop net self p retry_count tr) = tr @ replicate k p"
proof (induction net self p retry_count tr rule: call_rpc_loop.induct)
  case (1 net self p retry_count tr)
  have one: "\<exists>k. [p] = replicate k p"
    by (rule exI [where x = 1]) simp
  have zero: "\<exists>k. [] = replicate k p"
    by (rule exI [where x = 0]) simp
  have more: "\<exists>k. p # replicate j p = replicate k p" for j
    by (rule exI [where x = "Suc j"]) simp
  show ?case
  proof (cases "retry_count < max_retries self")
    case False
    then show ?thesis
      by (subst call_rpc_loop.simps) (use zero in auto)
  next
    case True
    show ?thesis
    proof (cases "net (length tr) p")
      case Timeout
      show ?thesis
      proof (cases "max_retries self \<le> retry_count + 1")
        case True
        with Timeout \<open>retry_count < max_retries self\<close> show ?thesis
          by (subst call_rpc_loop.simps) (use one in auto)
      next
        case False
        from "1.IH"(1) [OF \<open>retry_count < max_retries self\<close> Timeout False]
        obtain j where "snd (call_rpc_loop net self p (retry_count + 1) (tr @ [p])) =
          (tr @ [p]) @ replicate j p" by blast
        with Timeout False \<open>retry_count < max_retries self\<close> more [of j] show ?thesis
          by (subst call_rpc_loop.simps) auto
      qed
    next
      case (RequestFailure s)
      show ?thesis
      proof (cases "max_retries self \<le> retry_count + 1")
        case True
        with RequestFailure \<open>retry_count < max_retries self\<close> show ?thesis
          by (subst call_rpc_loop.simps) (use one in auto)
      next
        case False
        from "1.IH"(2) [OF \<open>retry_count < max_retries self\<close> RequestFailure False]
        obtain j where "snd (call_rpc_loop net self p (retry_count + 1) (tr @ [p])) =
          (tr @ [p]) @ replicate j p" by blast
        with RequestFailure False \<open>retry_count < max_retries self\<close> more [of j] show ?thesis
          by (subst call_rpc_loop.simps) auto
      qed
    next
      case BadStatus
      with True show ?thesis
        by (subst call_rpc_loop.simps) (use one in auto)
    next
      case NotJson
      with True show ?thesis
        by (subst call_rpc_loop.simps) (use one in auto)
    next
      case (Body data)
      with True show ?thesis
        by (subst call_rpc_loop.simps) (use one in auto)
    qed
  qed
qed

lemma check_rpc_errors_success:
  "check_rpc_errors data = Inr r \<Longrightarrow>
   \<exists>kvs. data = JObj kvs \<and> map_of kvs ''error'' = None \<and>
     r = (case map_of kvs ''result'' of None \<Rightarrow> JNull | Some v \<Rightarrow> v)"
  by (cases data)
    (auto simp: check_rpc_errors_def map_of_eq_None_iff split: sum.splits bool.splits if_splits)

lemma loop_success:
  "call_rpc_loop net self p retry_count tr = (Inr r, tr') \<Longrightarrow>
   \<exists>i kvs. net i p = Body (JObj kvs) \<and> map_of kvs ''error'' = None \<and>
     r = (case map_of kvs ''result'' of None \<Rightarrow> JNull | Some v \<Rightarrow> v)"
proof (induction net self p retry_count tr rule: call_rpc_loop.induct)
  case (1 net self p retry_count tr)
  from "1.prems" have lt: "retry_count < max_retries self"
    by (subst (asm) call_rpc_loop.simps) (auto split: if_splits)
  show ?case
  proof (cases "net (length tr) p")
    case Timeout
    with "1.prems" lt have nl: "\<not> max_retries self \<le> retry_count + 1"
      and rec: "call_rpc_loop net self p (retry_count + 1) (tr @ [p]) = (Inr r, tr')"
      by (subst (asm) call_rpc_loop.simps; auto split: if_splits)+
    from "1.IH"(1) [OF lt Timeout nl rec] show ?thesis .
  next
    case (RequestFailure s)
    with "1.prems" lt have nl: "\<not> max_retries self \<le> retry_count + 1"
      and rec: "call_rpc_loop net self p (retry_count + 1) (tr @ [p]) = (Inr r, tr')"
      by (subst (asm) call_rpc_loop.simps; auto split: if_splits)+
    from "1.IH"(2) [OF lt RequestFailure nl rec] show ?thesis .
  next
    case BadStatus
    with "1.prems" lt show ?thesis
      by (subst (asm) call_rpc_loop.simps) auto
  next
    case NotJson
    with "1.prems" lt show ?thesis
      by (subst (asm) call_rpc_loop.simps) auto
  next
    case (Body data)
    with "1.prems" lt have "check_rpc_errors data = Inr r"
      by (subst (asm) call_rpc_loop.simps) auto
    from check_rpc_errors_success [OF this] Body show ?thesis by blast
  qed
qed

lemma call_rpc_loop_eq:
  "call_rpc net self method ps tr =
   call_rpc_loop net self (rpc_payload method (case ps of None \<Rightarrow> [] | Some xs \<Rightarrow> xs)) 0 tr"
  by (simp add: call_rpc_def rpc_payload_def)

lemma loop_not_entered:
  "\<not> retry_count < max_retries self \<Longrightarrow>
   call_rpc_loop net self p retry_count tr = (Inl (SolanaRPCError MaxRetriesExceeded), tr)"
  by (subst call_rpc_loop.simps) simp

section \<open>The claims about the RPC transport\<close>

text \<open>
  Claim C2, as amended. When every attempt of an RPC call fails with a timeout or another
  \<open>httpx.RequestError\<close>, \<open>_call_rpc\<close> posts the same request exactly \<open>max_retries\<close> times
  (not at all when \<open>max_retries \<le> 0\<close>), one attempt straight after the other, and then
  raises a \<open>SolanaRPCError\<close> whose message names the last failure: the trace grows by
  \<open>max_retries\<close> copies of the request and by nothing else.
\<close>

theorem call_rpc_retries_exhausted:
  assumes p: "p = rpc_payload method (case ps of None \<Rightarrow> [] | Some xs \<Rightarrow> xs)"
    and fail: "\<forall>i<nat (max_retries self). transport_failure (net (length tr + i) p)"
  shows "call_rpc net self method ps tr =
    (Inl (SolanaRPCError
       (if max_retries self \<le> 0 then MaxRetriesExceeded
        else case net (length tr + nat (max_retries self) - 1) p of
               RequestFailure s \<Rightarrow> RequestFailed s
             | _ \<Rightarrow> TimedOut (max_retries self))),
     tr @ replicate (nat (max_retries self)) p)"
proof (cases "max_retries self \<le> 0")
  case True
  then show ?thesis
    by (simp add: call_rpc_loop_eq loop_not_entered)
next
  case False
  define k where "k = nat (max_retries self) - 1"
  have mr: "max_retries self = int k + 1" and sk: "nat (max_retries self) = Suc k"
    using False by (simp_all add: k_def)
  have "\<forall>i<k. transport_failure (net (length tr + i) p)"
    using fail sk by simp
  then have skip: "call_rpc_loop net self p 0 tr =
      call_rpc_loop net self p (0 + int k) (tr @ replicate k p)"
    by (rule loop_skip_failures) (simp add: mr)
  have lst: "transport_failure (net (length (tr @ replicate k p)) p)"
    using fail sk by simp
  have "call_rpc_loop net self p (0 + int k) (tr @ replicate k p) =
      (Inl (SolanaRPCError
         (case net (length (tr @ replicate k p)) p of
            RequestFailure s \<Rightarrow> RequestFailed s
          | _ \<Rightarrow> TimedOut (max_retries self))), (tr @ replicate k p) @ [p])"
    by (rule loop_last_failure) (use lst mr in simp_all)
  moreover have "(tr @ replicate k p) @ [p] = tr @ replicate (nat (max_retries self)) p"
    by (simp add: sk replicate_append_same)
  moreover have "length (tr @ replicate k p) = length tr + nat (max_retries self) - 1"
    by (simp add: sk)
  ultimately show ?thesis
    using skip False by (simp add: call_rpc_loop_eq p [symmetric])
qed

theorem call_rpc_retries_exhausted_witness:
  "call_rpc timeout_network default_client ''getBalance'' (Some [JStr example_address]) [] =
     (Inl (SolanaRPCError (TimedOut 3)),
      replicate 3 (rpc_payload ''getBalance'' [JStr example_address]))"
  using call_rpc_retries_exhausted
    [of "rpc_payload ''getBalance'' [JStr example_address]" "''getBalance''"
        "Some [JStr example_address]" default_client timeout_network "[]"]
  by (simp add: default_client_def timeout_network_def transport_failure_def)

text \<open>
  A response whose status is not 2xx is not among the retried failures: with
  \<open>max_retries = 3\<close> the call ends after one request, and the exception that leaves
  \<open>_call_rpc\<close> is the \<open>HTTPStatusError\<close> of \<open>raise_for_status\<close>.
\<close>

theorem bad_status_counterexample:
  "call_rpc bad_status_network default_client ''getBalance'' (Some [JStr example_address]) [] =
     (Inl HTTPStatusError, [rpc_payload ''getBalance'' [JStr example_address]])
   \<and> max_retries default_client = 3"
  by (simp add: call_rpc_loop_eq call_rpc_loop.simps default_client_def bad_status_network_def)

text \<open>
  Claim C5. When a 2xx response carries a JSON object with an \<open>error\<close> field (an object,
  as in a JSON-RPC reply), \<open>_call_rpc\<close> raises a \<open>SolanaRPCError\<close> with the error's
  \<open>message\<close> (or \<open>Unknown error\<close>) at once: the request of that response is the last one
  posted, whatever \<open>max_retries\<close> still allows. The \<open>k\<close> attempts before it are the
  transport failures that were retried, if any.
\<close>

theorem rpc_error_not_retried:
  assumes p: "p = rpc_payload method (case ps of None \<Rightarrow> [] | Some xs \<Rightarrow> xs)"
    and k: "int k < max_retries self"
    and fail: "\<forall>i<k. transport_failure (net (length tr + i) p)"
    and body: "net (length tr + k) p = Body (JObj kvs)"
    and err: "map_of kvs ''error'' = Some (JObj e)"
  shows "call_rpc net self method ps tr =
    (Inl (SolanaRPCError
       (RpcErrorMsg (case map_of e ''message'' of None \<Rightarrow> JStr ''Unknown error'' | Some m \<Rightarrow> m))),
     tr @ replicate (Suc k) p)"
proof -
  have skip: "call_rpc_loop net self p 0 tr =
      call_rpc_loop net self p (0 + int k) (tr @ replicate k p)"
    using fail by (rule loop_skip_failures) (use k in simp)
  have mem: "''error'' \<in> fst ` set kvs"
    using err by (metis map_of_eq_None_iff option.distinct(1))
  have chk: "check_rpc_errors (JObj kvs) =
      Inl (SolanaRPCError
        (RpcErrorMsg (case map_of e ''message'' of None \<Rightarrow> JStr ''Unknown error'' | Some m \<Rightarrow> m)))"
    using mem err by (simp add: check_rpc_errors_def)
  have "call_rpc_loop net self p (0 + int k) (tr @ replicate k p) =
      (check_rpc_errors (JObj kvs), (tr @ replicate k p) @ [p])"
    using k body by (subst call_rpc_loop.simps) simp
  with skip chk show ?thesis
    by (simp add: call_rpc_loop_eq p [symmetric] replicate_append_same)
qed

theorem rpc_error_not_retried_witness:
  "call_rpc flaky_network default_client ''getBalance'' (Some [JStr zero_address]) [] =
     (Inl (SolanaRPCError (RpcErrorMsg (JStr ''Invalid param: WrongSize''))),
      replicate 2 (rpc_payload ''getBalance'' [JStr zero_address]))"
  using rpc_error_not_retried
    [of "rpc_payload ''getBalance'' [JStr zero_address]" "''getBalance''"
        "Some [JStr zero_address]" 1 default_client flaky_network "[]"
        "[(''jsonrpc'', JStr ''2.0''),
          (''error'', JObj [(''code'', JInt (- 32602)), (''message'', JStr ''Invalid param: WrongSize'')]),
          (''id'', JInt 1)]"
        "[(''code'', JInt (- 32602)), (''message'', JStr ''Invalid param: WrongSize'')]"]
  by (simp add: default_client_def flaky_network_def rpc_error_def transport_failure_def
      numeral_2_eq_2)

section \<open>The claims about the converters and the balance\<close>

lemma round_to_double_one: "round_to_double 1 = Some 1"
  by code_simp

lemma round_to_double_142:
  "round_to_double (71 / 50) = Some (799388933858263 / 562949953421312)"
  by code_simp

text \<open>
  Claim C8. \<open>lamports_to_sol\<close> is the true division of its argument by the constant
  \<open>10 ^ 9\<close> and nothing else: no \<open>round\<close> is applied. On \<open>1_000_000_000\<close> it gives the
  float \<open>1.0\<close>, and on \<open>1_420_000_000\<close> the float that the literal \<open>1.42\<close> denotes (the
  binary64 value nearest to 142/100).
\<close>

theorem lamports_to_sol_divides:
  "lamports_to_sol n = py_truediv n (10 ^ 9)
   \<and> lamports_to_sol 1000000000 = Inr (float_literal 1)
   \<and> float_literal 1 = Finite 1
   \<and> lamports_to_sol 1420000000 = Inr (float_literal (142 / 100))
   \<and> float_literal (142 / 100) = Finite (799388933858263 / 562949953421312)"
proof -
  note r1 = round_to_double_one and r2 = round_to_double_142
  have a: "lamports_to_sol n = py_truediv n (10 ^ 9)"
    by (simp add: lamports_to_sol_def LAMPORTS_PER_SOL_def)
  have b: "lamports_to_sol 1000000000 = Inr (float_literal 1)"
    by (simp add: lamports_to_sol_def LAMPORTS_PER_SOL_def py_truediv_def float_literal_def r1)
  have c: "float_literal 1 = Finite 1"
    by (simp add: float_literal_def r1)
  have d: "lamports_to_sol 1420000000 = Inr (float_literal (142 / 100))"
    by (simp add: lamports_to_sol_def LAMPORTS_PER_SOL_def py_truediv_def float_literal_def r2)
  have e: "float_literal (142 / 100) = Finite (799388933858263 / 562949953421312)"
    by (simp add: float_literal_def r2)
  from a b c d e show ?thesis by blast
qed

text \<open>
  Claim C9. When the \<open>getBalance\<close> call returns, \<open>get_balance\<close> returns too: 0 for the
  result \<open>None\<close>, 0 for a dict without \<open>value\<close>, and the integer under \<open>value\<close> for a
  dict that has one.
\<close>

theorem get_balance_shapes:
  assumes a: "a \<noteq> []"
    and rpc: "call_rpc net self ''getBalance'' (Some [JStr a]) tr = (Inr r, tr')"
  shows "(r = JNull \<longrightarrow> get_balance L net self a tr = (Inr 0, tr'))
    \<and> (\<forall>kvs. r = JObj kvs \<and> map_of kvs ''value'' = None \<longrightarrow>
          get_balance L net self a tr = (Inr 0, tr'))
    \<and> (\<forall>kvs n. r = JObj kvs \<and> map_of kvs ''value'' = Some (JInt n) \<longrightarrow>
          get_balance L net self a tr = (Inr n, tr'))"
  using a rpc by (simp add: get_balance_def)

theorem get_balance_shapes_witness:
  "get_balance strict_library wallet_network default_client example_address [] =
     (Inr 1420000000, [rpc_payload ''getBalance'' [JStr example_address]])"
proof -
  have a: "example_address \<noteq> []"
    by (simp add: example_address_def)
  have rpc: "call_rpc wallet_network default_client ''getBalance''
      (Some [JStr example_address]) [] =
      (Inr (JObj [(''context'', JObj [(''slot'', JInt 1)]), (''value'', JInt 1420000000)]),
       [rpc_payload ''getBalance'' [JStr example_address]])"
    by (simp add: call_rpc_loop_eq call_rpc_loop.simps default_client_def wallet_network_def
        rpc_result_def rpc_payload_def check_rpc_errors_def)
  from get_balance_shapes [OF a rpc, of strict_library] show ?thesis
    by simp
qed

section \<open>The claims about the transaction history\<close>

lemma new_Transaction_status:
  "new_Transaction L sg d sl st fe = Inr t \<Longrightarrow> status t = st"
  by (auto simp: new_Transaction_def split: json.splits option.splits)

lemma build_transaction_status:
  assumes "build_transaction L sig_data sg tx_details = Inr t"
  shows "\<exists>meta err. py_get tx_details ''meta'' (JObj []) = Inr meta
    \<and> (if py_truthy meta then py_get meta ''err'' JNull else Inr JNull) = Inr err
    \<and> status t = (if py_truthy err then ''failed'' else ''success'')"
proof -
  from assms obtain meta where m: "py_get tx_details ''meta'' (JObj []) = Inr meta"
    by (cases "py_get tx_details ''meta'' (JObj [])") (simp_all add: build_transaction_def)
  from assms m obtain fe where
    f: "(if py_truthy meta then py_get meta ''fee'' (JInt 0) else Inr (JInt 0)) = Inr fe"
    by (cases "if py_truthy meta then py_get meta ''fee'' (JInt 0) else Inr (JInt 0)")
      (simp_all add: build_transaction_def)
  from assms m f obtain err where
    e: "(if py_truthy meta then py_get meta ''err'' JNull else Inr JNull) = Inr err"
    by (cases "if py_truthy meta then py_get meta ''err'' JNull else Inr JNull")
      (simp_all add: build_transaction_def)
  from assms m f e
  have "status t = (if py_truthy err then ''failed'' else ''success'')"
    by (auto simp add: build_transaction_def split: sum.splits option.splits
        dest!: new_Transaction_status)
  with m e show ?thesis by blast
qed

lemma meta_err_eq:
  assumes "py_get tx_details ''meta'' (JObj []) = Inr meta"
    and "(if py_truthy meta then py_get meta ''err'' JNull else Inr JNull) = Inr err"
  shows "py_truthy err = py_truthy (meta_err tx_details)"
  using assms
  by (cases tx_details; cases meta)
    (auto simp: meta_err_def split: option.splits if_splits)

text \<open>
  Claim C4, as amended. The status of a record is \<open>failed\<close> exactly when the \<open>meta.err\<close>
  field of the detail is true in Python's sense (present and none of \<open>None\<close>, \<open>False\<close>,
  \<open>0\<close>, \<open>0.0\<close>, the empty string, list or dict), and \<open>success\<close> otherwise, also when
  \<open>meta\<close> is missing.
\<close>

theorem status_follows_truth_of_err:
  assumes "build_transaction L sig_data sg tx_details = Inr t"
  shows "(status t = ''failed'' \<longleftrightarrow> py_truthy (meta_err tx_details))
    \<and> (status t = ''success'' \<longleftrightarrow> \<not> py_truthy (meta_err tx_details))"
proof -
  from build_transaction_status [OF assms] obtain meta err where
    "py_get tx_details ''meta'' (JObj []) = Inr meta"
    "(if py_truthy meta then py_get meta ''err'' JNull else Inr JNull) = Inr err"
    "status t = (if py_truthy err then ''failed'' else ''success'')"
    by blast
  with meta_err_eq [of tx_details meta err] show ?thesis by simp
qed

lemma build_failed_example:
  "build_transaction strict_library (signature_entry ''S1'' 30 (JInt 1768000000)) (JStr ''S1'')
     (transaction_detail 5000 (JStr ''AccountInUse'')) =
   Inr \<lparr>signature = ''S1'', block_time = Datetime 1768000000000000, slot = 30,
        status = ''failed'', fee = 5000\<rparr>"
  by (simp add: build_transaction_def signature_entry_def transaction_detail_def
      timestamp_to_datetime_def int_timestamp_def MIN_TIMESTAMP_def MAX_TIMESTAMP_def
      new_Transaction_def strict_library_def)

theorem status_follows_truth_of_err_witness:
  "build_transaction strict_library (signature_entry ''S1'' 30 (JInt 1768000000)) (JStr ''S1'')
     (transaction_detail 5000 (JStr ''AccountInUse'')) =
   Inr \<lparr>signature = ''S1'', block_time = Datetime 1768000000000000, slot = 30,
        status = ''failed'', fee = 5000\<rparr>
   \<and> py_truthy (meta_err (transaction_detail 5000 (JStr ''AccountInUse'')))"
  using status_follows_truth_of_err [OF build_failed_example] build_failed_example
  by simp

text \<open>
  An \<open>err\<close> that is present and not null, but empty, gives the status \<open>success\<close>.
\<close>

theorem falsy_err_counterexample:
  "build_transaction strict_library (signature_entry ''S1'' 30 (JInt 1768000000)) (JStr ''S1'')
     (transaction_detail 5000 (JObj [])) =
   Inr \<lparr>signature = ''S1'', block_time = Datetime 1768000000000000, slot = 30,
        status = ''success'', fee = 5000\<rparr>
   \<and> meta_err (transaction_detail 5000 (JObj [])) = JObj []
   \<and> JObj [] \<noteq> JNull"
  by (simp add: build_transaction_def signature_entry_def transaction_detail_def
      timestamp_to_datetime_def int_timestamp_def MIN_TIMESTAMP_def MAX_TIMESTAMP_def
      new_Transaction_def strict_library_def meta_err_def)

lemma call_rpc_trace:
  "\<exists>k. snd (call_rpc net self method (Some ps) tr) = tr @ replicate k (rpc_payload method ps)"
  using loop_trace [of net self "rpc_payload method ps" 0 tr]
  by (simp add: call_rpc_loop_eq)

lemma validate_address_length:
  "validate_address a = Inr v \<Longrightarrow> a \<noteq> [] \<and> 32 \<le> length a \<and> length a \<le> 44 \<and> v = a"
  by (auto simp: validate_address_def split: if_splits)

lemma example_address_valid: "validate_address example_address = Inr example_address"
  by (simp add: validate_address_def example_address_def base58_chars_def)

lemma empty_network_signatures:
  "call_rpc empty_network default_client ''getSignaturesForAddress''
     (Some [JStr a, JObj [(''limit'', JInt l)]]) tr =
   (Inr (JArr []), tr @ [rpc_payload ''getSignaturesForAddress'' [JStr a, JObj [(''limit'', JInt l)]]])"
  by (simp add: call_rpc_loop_eq call_rpc_loop.simps default_client_def empty_network_def
      rpc_result_def rpc_payload_def check_rpc_errors_def)

lemma empty_network_balance:
  "call_rpc empty_network default_client ''getBalance'' (Some [JStr a]) tr =
   (Inr (JObj [(''context'', JObj [(''slot'', JInt 1)])]),
    tr @ [rpc_payload ''getBalance'' [JStr a]])"
  by (simp add: call_rpc_loop_eq call_rpc_loop.simps default_client_def empty_network_def
      rpc_result_def rpc_payload_def check_rpc_errors_def)

text \<open>
  Claim C7. For an address that \<open>validate_address\<close> accepts and a \<open>limit\<close> within the
  \<open>Query\<close> bounds, when the signature lookup returns nothing (\<open>None\<close> or an empty list),
  \<open>get_wallet_transactions\<close> returns the address, an empty list and the count 0, and the
  only requests sent are those of the signature lookup: no \<open>getTransaction\<close> request.
\<close>

theorem no_signatures_no_details:
  assumes valid: "validate_address a = Inr a"
    and limit: "1 \<le> limit" "limit \<le> 1000"
    and rpc: "call_rpc net self ''getSignaturesForAddress''
        (Some [JStr a, JObj [(''limit'', JInt limit)]]) tr = (Inr r, tr')"
    and none: "\<not> py_truthy r"
  shows "get_wallet_transactions L net self a limit tr =
      (Inr \<lparr>wallet_address = a, transactions = [], count = 0\<rparr>, tr')
    \<and> (\<exists>k. tr' = tr @ replicate k
          (rpc_payload ''getSignaturesForAddress'' [JStr a, JObj [(''limit'', JInt limit)]]))"
proof -
  from validate_address_length [OF valid]
  have a: "a \<noteq> []" "\<not> length a < 32" "\<not> 44 < length a" by simp_all
  have sigs: "get_signatures net self a limit tr = (Inr (JArr []), tr')"
    using a limit rpc none by (simp add: get_signatures_def)
  have body: "transactions_body L net self a limit tr =
      (Inr \<lparr>wallet_address = a, transactions = [], count = 0\<rparr>, tr')"
    using sigs valid by (simp add: transactions_body_def new_TransactionList_def)
  have res: "get_wallet_transactions L net self a limit tr =
      (Inr \<lparr>wallet_address = a, transactions = [], count = 0\<rparr>, tr')"
    using a body by (simp add: get_wallet_transactions_def)
  from call_rpc_trace [of net self "''getSignaturesForAddress''"
      "[JStr a, JObj [(''limit'', JInt limit)]]" tr] rpc
  have "\<exists>k. tr' = tr @ replicate k
      (rpc_payload ''getSignaturesForAddress'' [JStr a, JObj [(''limit'', JInt limit)]])"
    by simp
  with res show ?thesis by simp
qed

theorem no_signatures_no_details_witness:
  "get_wallet_transactions strict_library empty_network default_client example_address 10 [] =
     (Inr \<lparr>wallet_address = example_address, transactions = [], count = 0\<rparr>,
      [rpc_payload ''getSignaturesForAddress''
         [JStr example_address, JObj [(''limit'', JInt 10)]]])"
  using no_signatures_no_details [where L = strict_library and limit = 10 and tr = "[]",
      OF example_address_valid _ _ empty_network_signatures]
  by simp

section \<open>The claim about address validation\<close>

text \<open>An address that is too short or too long is refused by both endpoints, with the
  status 400 and before any request is sent.\<close>

lemma bad_length_rejected:
  assumes "length a < 32 \<or> 44 < length a"
  shows "get_wallet_summary L net self a tr =
      (Inl (HTTPException 400 (InvalidAddress (length a))), tr)"
    and "get_wallet_transactions L net self a limit tr =
      (Inl (HTTPException 400 (InvalidAddress (length a))), tr)"
  using assms by (auto simp: get_wallet_summary_def get_wallet_transactions_def)

text \<open>An address of an accepted length is never answered with the status 400.\<close>

lemma to_http_status:
  "to_http r = Inl e \<Longrightarrow> status_code e = 503 \<or> status_code e = 500"
  by (cases r rule: to_http.cases) auto

lemma accepted_length_never_400:
  assumes "32 \<le> length a" "length a \<le> 44"
  shows "fst (get_wallet_summary L net self a tr) = Inl e \<Longrightarrow> status_code e \<noteq> 400"
    and "fst (get_wallet_transactions L net self a limit tr) = Inl e \<Longrightarrow> status_code e \<noteq> 400"
proof -
  from assms have ne: "a \<noteq> []" by auto
  show "fst (get_wallet_summary L net self a tr) = Inl e \<Longrightarrow> status_code e \<noteq> 400"
    using assms ne
    by (auto simp: get_wallet_summary_def split: prod.splits dest!: to_http_status)
  show "fst (get_wallet_transactions L net self a limit tr) = Inl e \<Longrightarrow> status_code e \<noteq> 400"
    using assms ne
    by (auto simp: get_wallet_transactions_def split: prod.splits dest!: to_http_status)
qed

lemma zero_address_invalid:
  "length zero_address = 44 \<and> validate_address zero_address = Inl ValueError"
  by (simp add: validate_address_def zero_address_def base58_chars_def)

lemma build_summary_zero:
  "build_summary a 0 n la = new_WalletSummary a (Finite 0) 0 n la"
  by (simp add: build_summary_def lamports_to_sol_def py_truediv_def LAMPORTS_PER_SOL_def
      round_to_double_def py_round_def round_half_even_def)

text \<open>
  Claim C1 does not hold for the other half of the validation. An address of 44 characters
  that contains \<open>0\<close> passes the length test of both endpoints; the requests are sent, and
  the base58 test of \<open>validate_address\<close> fails only when the response object is built,
  inside the \<open>try\<close>, where \<open>except Exception\<close> turns it into the status 500.
\<close>

theorem zero_address_reaches_rpc:
  "get_wallet_summary strict_library empty_network default_client zero_address [] =
     (Inl (HTTPException 500 (InternalError ValidationError)),
      [rpc_payload ''getBalance'' [JStr zero_address],
       rpc_payload ''getSignaturesForAddress'' [JStr zero_address, JObj [(''limit'', JInt 1)]],
       rpc_payload ''getSignaturesForAddress'' [JStr zero_address, JObj [(''limit'', JInt 1000)]]])
   \<and> get_wallet_transactions strict_library empty_network default_client zero_address 10 [] =
     (Inl (HTTPException 500 (InternalError ValidationError)),
      [rpc_payload ''getSignaturesForAddress'' [JStr zero_address, JObj [(''limit'', JInt 10)]]])"
proof -
  have len: "length zero_address = 44" "zero_address \<noteq> []"
    using zero_address_invalid by auto
  have inv: "validate_address zero_address = Inl ValueError"
    using zero_address_invalid by simp
  have s: "get_wallet_summary strict_library empty_network default_client zero_address [] =
     (Inl (HTTPException 500 (InternalError ValidationError)),
      [rpc_payload ''getBalance'' [JStr zero_address],
       rpc_payload ''getSignaturesForAddress'' [JStr zero_address, JObj [(''limit'', JInt 1)]],
       rpc_payload ''getSignaturesForAddress'' [JStr zero_address, JObj [(''limit'', JInt 1000)]]])"
    using len inv
    by (simp add: get_wallet_summary_def summary_body_def get_balance_def get_signatures_def
        get_transaction_count_def empty_network_balance empty_network_signatures
        find_last_active_def build_summary_zero new_WalletSummary_def)
  have t: "get_wallet_transactions strict_library empty_network default_client zero_address 10 [] =
     (Inl (HTTPException 500 (InternalError ValidationError)),
      [rpc_payload ''getSignaturesForAddress'' [JStr zero_address, JObj [(''limit'', JInt 10)]]])"
    using len inv
    by (simp add: get_wallet_transactions_def transactions_body_def get_signatures_def
        empty_network_signatures new_TransactionList_def)
  from s t show ?thesis by simp
qed

section \<open>The claims about the summary\<close>

lemma to_http_Inr: "to_http r = Inr v \<longleftrightarrow> r = Inr v"
  by (cases r rule: to_http.cases) simp_all

lemma build_summary_fields:
  "build_summary a bl n la = Inr s \<Longrightarrow>
   address s = a \<and> balance_lamports s = bl \<and> tx_count s = n \<and> last_active s = la"
  by (auto simp: build_summary_def new_WalletSummary_def validate_address_def
      split: sum.splits if_splits)

lemma summary_success:
  assumes "get_wallet_summary L net self a tr = (Inr s, trf)"
  shows "\<exists>bl tr1 sigs tr2 n la.
      get_balance L net self a tr = (Inr bl, tr1)
    \<and> get_signatures net self a 1 tr1 = (Inr sigs, tr2)
    \<and> get_transaction_count net self a tr2 = (Inr n, trf)
    \<and> find_last_active L sigs = Inr la
    \<and> build_summary a bl n la = Inr s"
  using assms
  by (auto simp: get_wallet_summary_def summary_body_def to_http_Inr
      split: if_splits prod.splits sum.splits)

lemma transaction_count_success:
  assumes "get_transaction_count net self a tr = (Inr n, tr')"
  shows "\<exists>r. call_rpc net self ''getSignaturesForAddress''
        (Some [JStr a, JObj [(''limit'', JInt 1000)]]) tr = (Inr r, tr')
      \<and> (if py_truthy r then map_sum id int (py_len r) else Inr 0) = Inr n"
proof -
  from assms have a: "a \<noteq> []"
    by (auto simp: get_transaction_count_def split: if_splits)
  obtain x tr1 where c: "call_rpc net self ''getSignaturesForAddress''
        (Some [JStr a, JObj [(''limit'', JInt 1000)]]) tr = (x, tr1)"
    by (cases "call_rpc net self ''getSignaturesForAddress''
        (Some [JStr a, JObj [(''limit'', JInt 1000)]]) tr")
  show ?thesis
  proof (cases x)
    case (Inl e)
    with assms a c show ?thesis
      by (cases e) (simp_all add: get_transaction_count_def)
  next
    case (Inr r)
    with assms a c have tr1: "tr1 = tr'"
      and n: "reraise ''transaction count''
          (if py_truthy r then (case py_len r of Inl e \<Rightarrow> Inl e | Inr n \<Rightarrow> Inr (int n))
           else Inr 0) = Inr n"
      by (simp_all add: get_transaction_count_def)
    from n have "(if py_truthy r then map_sum id int (py_len r) else Inr 0) = Inr n"
      by (cases "py_len r") (auto split: if_splits elim: reraise.elims)
    with c Inr tr1 show ?thesis by simp
  qed
qed

lemma find_last_active_none:
  assumes "sigs = JArr [] \<or> (\<exists>kvs rest. sigs = JArr (JObj kvs # rest)
      \<and> (map_of kvs ''blockTime'' = None \<or> map_of kvs ''blockTime'' = Some JNull
          \<or> map_of kvs ''blockTime'' = Some (JInt 0)))"
  shows "find_last_active L sigs = Inr None"
  using assms by (auto simp: find_last_active_def)

lemma epoch_network_balance:
  "call_rpc epoch_network default_client ''getBalance'' (Some [JStr a]) tr =
   (Inr JNull, tr @ [rpc_payload ''getBalance'' [JStr a]])"
  by (simp add: call_rpc_loop_eq call_rpc_loop.simps default_client_def epoch_network_def
      rpc_result_def rpc_payload_def check_rpc_errors_def)

lemma epoch_network_signatures:
  "call_rpc epoch_network default_client ''getSignaturesForAddress'' (Some ps) tr =
   (Inr (JArr [signature_entry ''S1'' 30 (JInt 0)]),
    tr @ [rpc_payload ''getSignaturesForAddress'' ps])"
  by (simp add: call_rpc_loop_eq call_rpc_loop.simps default_client_def epoch_network_def
      rpc_result_def rpc_payload_def check_rpc_errors_def)

lemma epoch_network_summary:
  "get_wallet_summary strict_library epoch_network default_client example_address [] =
     (Inr \<lparr>address = example_address, balance = Finite 0, balance_lamports = 0, tx_count = 1,
          last_active = None\<rparr>,
      [rpc_payload ''getBalance'' [JStr example_address],
       rpc_payload ''getSignaturesForAddress''
         [JStr example_address, JObj [(''limit'', JInt 1)]],
       rpc_payload ''getSignaturesForAddress''
         [JStr example_address, JObj [(''limit'', JInt 1000)]]])"
proof -
  have len: "example_address \<noteq> []" "\<not> length example_address < 32"
    "\<not> 44 < length example_address"
    using validate_address_length [OF example_address_valid] by simp_all
  show ?thesis
    using len
    by (simp add: get_wallet_summary_def summary_body_def get_balance_def get_signatures_def
        get_transaction_count_def epoch_network_balance epoch_network_signatures
        find_last_active_def signature_entry_def build_summary_zero new_WalletSummary_def
        example_address_valid)
qed

lemma wallet_network_balance:
  "call_rpc wallet_network default_client ''getBalance'' (Some [JStr a]) tr =
   (Inr (JObj [(''context'', JObj [(''slot'', JInt 1)]), (''value'', JInt 1420000000)]),
    tr @ [rpc_payload ''getBalance'' [JStr a]])"
  by (simp add: call_rpc_loop_eq call_rpc_loop.simps default_client_def wallet_network_def
      rpc_result_def rpc_payload_def check_rpc_errors_def)

lemma wallet_network_signatures:
  "1 \<le> l \<Longrightarrow>
   call_rpc wallet_network default_client ''getSignaturesForAddress''
     (Some [JStr a, JObj [(''limit'', JInt l)]]) tr =
   (Inr (JArr (take (nat l) three_entries)),
    tr @ [rpc_payload ''getSignaturesForAddress'' [JStr a, JObj [(''limit'', JInt l)]]])"
  by (simp add: call_rpc_loop_eq call_rpc_loop.simps default_client_def wallet_network_def
      rpc_result_def rpc_payload_def check_rpc_errors_def)

lemma round_half_even_142:
  "round_half_even (799388933858263 / 562949953421312 * 10 ^ 9) = 1420000000"
proof -
  have "\<lfloor>799388933858263 / 562949953421312 * 10 ^ 9 :: rat\<rfloor> = 1419999999"
    by (rule floor_unique) simp_all
  then show ?thesis
    by (simp add: round_half_even_def Let_def)
qed

lemma build_summary_142:
  "build_summary a 1420000000 n la =
   new_WalletSummary a (Finite (799388933858263 / 562949953421312)) 1420000000 n la"
  using round_half_even_142
  by (simp add: build_summary_def lamports_to_sol_def py_truediv_def LAMPORTS_PER_SOL_def
      py_round_def round_to_double_142)

lemma wallet_network_summary:
  "get_wallet_summary strict_library wallet_network default_client example_address [] =
     (Inr \<lparr>address = example_address, balance = Finite (799388933858263 / 562949953421312),
          balance_lamports = 1420000000, tx_count = 3,
          last_active = Some (Datetime 1768000000000000)\<rparr>,
      [rpc_payload ''getBalance'' [JStr example_address],
       rpc_payload ''getSignaturesForAddress''
         [JStr example_address, JObj [(''limit'', JInt 1)]],
       rpc_payload ''getSignaturesForAddress''
         [JStr example_address, JObj [(''limit'', JInt 1000)]]])"
proof -
  have len: "example_address \<noteq> []" "\<not> length example_address < 32"
    "\<not> 44 < length example_address"
    using validate_address_length [OF example_address_valid] by simp_all
  show ?thesis
    using len
    by (simp add: get_wallet_summary_def summary_body_def get_balance_def get_signatures_def
        get_transaction_count_def wallet_network_balance wallet_network_signatures
        three_entries_def find_last_active_def signature_entry_def build_summary_142
        new_WalletSummary_def example_address_valid timestamp_to_datetime_def
        int_timestamp_def MIN_TIMESTAMP_def MAX_TIMESTAMP_def)
qed

lemma wallet_network_honours_limit:
  "\<forall>i p addr l kvs.
     wallet_network i p = Body (JObj kvs) \<and> rpc_method p = ''getSignaturesForAddress''
       \<and> params p = [addr, JObj [(''limit'', JInt l)]] \<and> 0 < l \<longrightarrow>
     map_of kvs ''result'' = None \<or> map_of kvs ''result'' = Some JNull
       \<or> (\<exists>xs. map_of kvs ''result'' = Some (JArr xs) \<and> int (length xs) \<le> l)"
proof -
  have h: "int (min n (nat l)) \<le> l" if "0 < l" for n l
    using that by linarith
  show ?thesis
    by (auto simp: wallet_network_def rpc_result_def h)
qed

text \<open>
  Claim C6. Whenever \<open>get_wallet_summary\<close> returns a summary, its \<open>tx_count\<close> is what one
  \<open>getSignaturesForAddress\<close> call with \<open>limit\<close> 1000 returned: 0 for \<open>None\<close>, the length
  of the list otherwise. With an upstream that answers such a request with \<open>None\<close> or with
  a list of at most \<open>limit\<close> entries, \<open>tx_count\<close> is therefore at most 1000.
\<close>

theorem summary_tx_count_capped:
  assumes ok: "get_wallet_summary L net self a tr = (Inr s, trf)"
    and api: "\<forall>i p addr l kvs.
        net i p = Body (JObj kvs) \<and> rpc_method p = ''getSignaturesForAddress''
          \<and> params p = [addr, JObj [(''limit'', JInt l)]] \<and> 0 < l \<longrightarrow>
        map_of kvs ''result'' = None \<or> map_of kvs ''result'' = Some JNull
          \<or> (\<exists>xs. map_of kvs ''result'' = Some (JArr xs) \<and> int (length xs) \<le> l)"
  shows "\<exists>tr2 r. call_rpc net self ''getSignaturesForAddress''
          (Some [JStr a, JObj [(''limit'', JInt 1000)]]) tr2 = (Inr r, trf)
      \<and> (r = JNull \<and> tx_count s = 0 \<or> (\<exists>xs. r = JArr xs \<and> tx_count s = int (length xs)))
      \<and> tx_count s \<le> 1000"
proof -
  from summary_success [OF ok] obtain bl tr1 sigs tr2 n la where
    cnt: "get_transaction_count net self a tr2 = (Inr n, trf)"
    and bs: "build_summary a bl n la = Inr s"
    by blast
  from build_summary_fields [OF bs] have n: "tx_count s = n" by simp
  from transaction_count_success [OF cnt] obtain r where
    rpc: "call_rpc net self ''getSignaturesForAddress''
        (Some [JStr a, JObj [(''limit'', JInt 1000)]]) tr2 = (Inr r, trf)"
    and len: "(if py_truthy r then map_sum id int (py_len r) else Inr 0) = Inr n"
    by blast
  let ?p = "rpc_payload ''getSignaturesForAddress'' [JStr a, JObj [(''limit'', JInt 1000)]]"
  from rpc have "call_rpc_loop net self ?p 0 tr2 = (Inr r, trf)"
    by (simp add: call_rpc_loop_eq)
  from loop_success [OF this] obtain i kvs where
    body: "net i ?p = Body (JObj kvs)"
    and r: "r = (case map_of kvs ''result'' of None \<Rightarrow> JNull | Some v \<Rightarrow> v)"
    by blast
  have "map_of kvs ''result'' = None \<or> map_of kvs ''result'' = Some JNull
      \<or> (\<exists>xs. map_of kvs ''result'' = Some (JArr xs) \<and> int (length xs) \<le> 1000)"
    using api [rule_format, of i ?p kvs "JStr a" 1000] body
    by (simp add: rpc_payload_def)
  with r have shape: "r = JNull \<or> (\<exists>xs. r = JArr xs \<and> int (length xs) \<le> 1000)"
    by auto
  from shape len n have
    "(r = JNull \<and> tx_count s = 0 \<or> (\<exists>xs. r = JArr xs \<and> tx_count s = int (length xs)))
      \<and> tx_count s \<le> 1000"
    by (auto split: if_splits)
  with rpc show ?thesis by blast
qed

theorem summary_tx_count_capped_witness:
  "\<exists>tr2 r. call_rpc wallet_network default_client ''getSignaturesForAddress''
          (Some [JStr example_address, JObj [(''limit'', JInt 1000)]]) tr2 =
        (Inr r,
         [rpc_payload ''getBalance'' [JStr example_address],
          rpc_payload ''getSignaturesForAddress''
            [JStr example_address, JObj [(''limit'', JInt 1)]],
          rpc_payload ''getSignaturesForAddress''
            [JStr example_address, JObj [(''limit'', JInt 1000)]]])
      \<and> (\<exists>xs. r = JArr xs \<and> length xs = 3)"
  using summary_tx_count_capped [OF wallet_network_summary wallet_network_honours_limit]
  by auto

text \<open>
  Claim C10. Whenever \<open>get_wallet_summary\<close> returns a summary, \<open>last_active\<close> is absent
  if the one-item signature lookup gave no signature, and also if the \<open>blockTime\<close> of its
  first entry is missing, \<open>None\<close> or 0.
\<close>

theorem last_active_absent:
  assumes ok: "get_wallet_summary L net self a tr = (Inr s, trf)"
    and bal: "get_balance L net self a tr = (rb, tr1)"
    and sg: "get_signatures net self a 1 tr1 = (Inr sigs, tr2)"
    and bt: "sigs = JArr [] \<or> (\<exists>kvs rest. sigs = JArr (JObj kvs # rest)
      \<and> (map_of kvs ''blockTime'' = None \<or> map_of kvs ''blockTime'' = Some JNull
          \<or> map_of kvs ''blockTime'' = Some (JInt 0)))"
  shows "last_active s = None"
proof -
  from summary_success [OF ok] obtain bl tr1' sigs' tr2' n la where
    b: "get_balance L net self a tr = (Inr bl, tr1')"
    and g: "get_signatures net self a 1 tr1' = (Inr sigs', tr2')"
    and f: "find_last_active L sigs' = Inr la"
    and bs: "build_summary a bl n la = Inr s"
    by blast
  from b bal have "tr1' = tr1" by simp
  with g sg have "sigs' = sigs" by simp
  with f find_last_active_none [OF bt, of L] have "la = None" by simp
  with build_summary_fields [OF bs] show ?thesis by simp
qed

theorem last_active_absent_witness:
  "get_wallet_summary strict_library epoch_network default_client example_address [] =
     (Inr \<lparr>address = example_address, balance = Finite 0, balance_lamports = 0, tx_count = 1,
          last_active = None\<rparr>,
      [rpc_payload ''getBalance'' [JStr example_address],
       rpc_payload ''getSignaturesForAddress''
         [JStr example_address, JObj [(''limit'', JInt 1)]],
       rpc_payload ''getSignaturesForAddress''
         [JStr example_address, JObj [(''limit'', JInt 1000)]]])
   \<and> last_active \<lparr>address = example_address, balance = Finite 0, balance_lamports = 0,
        tx_count = 1, last_active = None\<rparr> = None"
proof -
  have len: "example_address \<noteq> []"
    using validate_address_length [OF example_address_valid] by simp
  have bal: "get_balance strict_library epoch_network default_client example_address [] =
      (Inr 0, [rpc_payload ''getBalance'' [JStr example_address]])"
    using len by (simp add: get_balance_def epoch_network_balance)
  have sg: "get_signatures epoch_network default_client example_address 1
      [rpc_payload ''getBalance'' [JStr example_address]] =
      (Inr (JArr [JObj [(''signature'', JStr ''S1''), (''slot'', JInt 30), (''err'', JNull),
                        (''blockTime'', JInt 0)]]),
       [rpc_payload ''getBalance'' [JStr example_address],
        rpc_payload ''getSignaturesForAddress''
          [JStr example_address, JObj [(''limit'', JInt 1)]]])"
    using len by (simp add: get_signatures_def epoch_network_signatures signature_entry_def)
  have bt: "JArr [JObj [(''signature'', JStr ''S1''), (''slot'', JInt 30), (''err'', JNull),
                        (''blockTime'', JInt 0)]] = JArr []
      \<or> (\<exists>kvs rest. JArr [JObj [(''signature'', JStr ''S1''), (''slot'', JInt 30),
                                 (''err'', JNull), (''blockTime'', JInt 0)]] =
            JArr (JObj kvs # rest)
          \<and> (map_of kvs ''blockTime'' = None \<or> map_of kvs ''blockTime'' = Some JNull
              \<or> map_of kvs ''blockTime'' = Some (JInt 0)))"
    by simp
  from last_active_absent [OF epoch_network_summary bal sg bt] epoch_network_summary
  show ?thesis by simp
qed

section \<open>The claim about the isolation of errors in the history\<close>

lemma loop_collects:
  "\<forall>sd\<in>set sigs. is_object sd \<Longrightarrow>
   transactions_loop L net self sigs acc tr =
     (Inr (acc @ survivors (entry_outcomes L net self sigs tr)),
      entries_trace L net self sigs tr)"
proof (induction sigs arbitrary: acc tr)
  case Nil
  then show ?case by simp
next
  case (Cons sd sigs)
  from Cons.prems obtain kvs where sd: "sd = JObj kvs"
    by (cases sd) simp_all
  from Cons.prems have rest: "\<forall>x\<in>set sigs. is_object x" by simp
  obtain r tr' where p: "process_signature L net self sd tr = (r, tr')"
    by (cases "process_signature L net self sd tr")
  show ?case
  proof (cases r)
    case (Inl e)
    with p sd Cons.IH [OF rest, of acc tr'] show ?thesis by simp
  next
    case (Inr opt)
    show ?thesis
    proof (cases opt)
      case None
      with Inr p Cons.IH [OF rest, of acc tr'] show ?thesis by simp
    next
      case (Some t)
      with Inr p Cons.IH [OF rest, of "acc @ [t]" tr'] show ?thesis by simp
    qed
  qed
qed

lemma length_entry_outcomes [simp]:
  "length (entry_outcomes L net self sigs tr) = length sigs"
  by (induction sigs arbitrary: tr) simp_all

lemma survivors_append: "survivors (xs @ ys) = survivors xs @ survivors ys"
  by (induction xs rule: survivors.induct) simp_all

lemma survivors_all:
  "\<forall>r\<in>set rs. \<exists>t. r = Inr (Some t) \<Longrightarrow>
   map (\<lambda>t. Inr (Some t)) (survivors rs) = rs \<and> length (survivors rs) = length rs"
  by (induction rs rule: survivors.induct) auto

lemma survivors_skip: "isl r \<or> r = Inr None \<Longrightarrow> survivors (r # rs) = survivors rs"
  by (cases r) auto

lemma survivors_but_one:
  assumes i: "i < length outs"
    and bad: "isl (outs ! i) \<or> outs ! i = Inr None"
    and good: "\<forall>j<length outs. j \<noteq> i \<longrightarrow> (\<exists>t. outs ! j = Inr (Some t))"
  shows "map (\<lambda>t. Inr (Some t)) (survivors outs) = take i outs @ drop (Suc i) outs"
    and "length (survivors outs) = length outs - 1"
proof -
  have split: "outs = take i outs @ [outs ! i] @ drop (Suc i) outs"
    using i by (simp add: id_take_nth_drop [symmetric])
  have pre: "\<forall>r\<in>set (take i outs). \<exists>t. r = Inr (Some t)"
  proof
    fix r assume "r \<in> set (take i outs)"
    then obtain j where "j < i" "r = outs ! j"
      using i by (auto simp: in_set_conv_nth)
    with good i show "\<exists>t. r = Inr (Some t)" by simp
  qed
  have post: "\<forall>r\<in>set (drop (Suc i) outs). \<exists>t. r = Inr (Some t)"
  proof
    fix r assume "r \<in> set (drop (Suc i) outs)"
    then obtain j where "j < length outs - Suc i" "r = outs ! (Suc i + j)"
      by (auto simp: in_set_conv_nth)
    with good show "\<exists>t. r = Inr (Some t)" by simp
  qed
  have s: "survivors outs = survivors (take i outs) @ survivors (drop (Suc i) outs)"
    by (subst split) (simp add: survivors_append survivors_skip [OF bad])
  show "map (\<lambda>t. Inr (Some t)) (survivors outs) = take i outs @ drop (Suc i) outs"
    using survivors_all [OF pre] survivors_all [OF post] by (simp add: s)
  show "length (survivors outs) = length outs - 1"
    using survivors_all [OF pre] survivors_all [OF post] i by (simp add: s)
qed

lemma none_detail_skipped:
  assumes "py_get sd ''signature'' JNull = Inr sg" "py_truthy sg"
    and "get_transaction_details net self sg t0 = (Inr JNull, t1)"
  shows "process_signature L net self sd t0 = (Inr None, t1)"
  using assms by (simp add: process_signature_def)

lemma wallet_network_transaction:
  "s \<noteq> ''S2'' \<Longrightarrow>
   call_rpc wallet_network default_client ''getTransaction''
     (Some [JStr s, JObj [(''encoding'', JStr ''json'')]]) tr =
   (Inr (transaction_detail 5000 JNull),
    tr @ [rpc_payload ''getTransaction'' [JStr s, JObj [(''encoding'', JStr ''json'')]]])"
  by (simp add: call_rpc_loop_eq call_rpc_loop.simps default_client_def wallet_network_def
      rpc_result_def rpc_payload_def check_rpc_errors_def)

lemma wallet_network_transaction_S2:
  "call_rpc wallet_network default_client ''getTransaction''
     (Some [JStr ''S2'', JObj [(''encoding'', JStr ''json'')]]) tr =
   (Inl (SolanaRPCError (RpcErrorMsg (JStr ''Transaction unavailable''))),
    tr @ [rpc_payload ''getTransaction'' [JStr ''S2'', JObj [(''encoding'', JStr ''json'')]]])"
  by (simp add: call_rpc_loop_eq call_rpc_loop.simps default_client_def wallet_network_def
      rpc_error_def rpc_payload_def check_rpc_errors_def)

lemma wallet_network_entries:
  "process_signature strict_library wallet_network default_client
     (signature_entry ''S1'' 30 (JInt 1768000000)) tr =
   (Inr (Some \<lparr>signature = ''S1'', block_time = Datetime 1768000000000000, slot = 30,
               status = ''success'', fee = 5000\<rparr>),
    tr @ [rpc_payload ''getTransaction'' [JStr ''S1'', JObj [(''encoding'', JStr ''json'')]]])"
  "process_signature strict_library wallet_network default_client
     (signature_entry ''S2'' 20 (JInt 1767000000)) tr =
   (Inl (SolanaRPCError (RpcErrorMsg (JStr ''Transaction unavailable''))),
    tr @ [rpc_payload ''getTransaction'' [JStr ''S2'', JObj [(''encoding'', JStr ''json'')]]])"
  "process_signature strict_library wallet_network default_client
     (signature_entry ''S3'' 10 JNull) tr =
   (Inr (Some \<lparr>signature = ''S3'', block_time = Datetime 0, slot = 10,
               status = ''success'', fee = 5000\<rparr>),
    tr @ [rpc_payload ''getTransaction'' [JStr ''S3'', JObj [(''encoding'', JStr ''json'')]]])"
  by (simp_all add: process_signature_def get_transaction_details_def signature_entry_def
      wallet_network_transaction wallet_network_transaction_S2 build_transaction_def
      transaction_detail_def timestamp_to_datetime_def int_timestamp_def MIN_TIMESTAMP_def
      MAX_TIMESTAMP_def new_Transaction_def strict_library_def)

lemma wallet_network_history:
  "get_signatures wallet_network default_client example_address 10 [] =
     (Inr (JArr three_entries),
      [rpc_payload ''getSignaturesForAddress''
         [JStr example_address, JObj [(''limit'', JInt 10)]]])"
proof -
  have "example_address \<noteq> []"
    using validate_address_length [OF example_address_valid] by simp
  moreover have "take (nat 10) three_entries = three_entries"
    by (simp add: three_entries_def)
  ultimately show ?thesis
    by (simp add: get_signatures_def wallet_network_signatures)
qed

lemma wallet_network_outcomes:
  "entry_outcomes strict_library wallet_network default_client three_entries tr =
     [Inr (Some \<lparr>signature = ''S1'', block_time = Datetime 1768000000000000, slot = 30,
                 status = ''success'', fee = 5000\<rparr>),
      Inl (SolanaRPCError (RpcErrorMsg (JStr ''Transaction unavailable''))),
      Inr (Some \<lparr>signature = ''S3'', block_time = Datetime 0, slot = 10,
                 status = ''success'', fee = 5000\<rparr>)]"
  "entries_trace strict_library wallet_network default_client three_entries tr =
     tr @ [rpc_payload ''getTransaction'' [JStr ''S1'', JObj [(''encoding'', JStr ''json'')]],
           rpc_payload ''getTransaction'' [JStr ''S2'', JObj [(''encoding'', JStr ''json'')]],
           rpc_payload ''getTransaction'' [JStr ''S3'', JObj [(''encoding'', JStr ''json'')]]]"
  by (simp_all add: three_entries_def wallet_network_entries)

text \<open>
  Isolation where it holds. Take a valid address and a signature lookup that returns \<open>N\<close>
  entries, all of them objects. If the processing of one entry raises (in the detail fetch
  or after it) or skips the entry, and every other entry yields a record, then
  \<open>get_wallet_transactions\<close> returns: its list is the records of the other \<open>N - 1\<close>
  entries in their order, and \<open>count\<close> is \<open>N - 1\<close>. An entry whose detail fetch
  returns \<open>None\<close> is one that is skipped.
\<close>

theorem one_failed_entry_is_skipped:
  assumes valid: "validate_address a = Inr a"
    and sg: "get_signatures net self a limit tr = (Inr (JArr sigs), tr1)"
    and objs: "\<forall>sd\<in>set sigs. is_object sd"
    and outs: "outs = entry_outcomes L net self sigs tr1"
    and i: "i < length sigs"
    and bad: "isl (outs ! i) \<or> outs ! i = Inr None"
    and good: "\<forall>j<length sigs. j \<noteq> i \<longrightarrow> (\<exists>t. outs ! j = Inr (Some t))"
  shows "(\<exists>ts. get_wallet_transactions L net self a limit tr =
        (Inr \<lparr>wallet_address = a, transactions = ts, count = int (length sigs) - 1\<rparr>,
         entries_trace L net self sigs tr1)
      \<and> length ts = length sigs - 1
      \<and> map (\<lambda>t. Inr (Some t)) ts = take i outs @ drop (Suc i) outs)
    \<and> (\<forall>sd s t0 t1. py_get sd ''signature'' JNull = Inr s \<and> py_truthy s
          \<and> get_transaction_details net self s t0 = (Inr JNull, t1) \<longrightarrow>
        process_signature L net self sd t0 = (Inr None, t1))"
proof -
  from validate_address_length [OF valid]
  have a: "a \<noteq> []" "\<not> length a < 32" "\<not> 44 < length a" by simp_all
  have len: "length outs = length sigs" by (simp add: outs)
  from i have ne: "sigs \<noteq> []" by auto
  have m: "map (\<lambda>t. Inr (Some t)) (survivors outs) = take i outs @ drop (Suc i) outs"
    and l: "length (survivors outs) = length sigs - 1"
    using survivors_but_one [of i outs] i bad good len by simp_all
  have loop: "transactions_loop L net self sigs [] tr1 =
      (Inr (survivors outs), entries_trace L net self sigs tr1)"
    using loop_collects [OF objs, of L net self "[]" tr1] by (simp add: outs)
  have cnt: "int (length (survivors outs)) = int (length sigs) - 1"
    using l i by simp
  have "transactions_body L net self a limit tr =
      (Inr \<lparr>wallet_address = a, transactions = survivors outs,
            count = int (length sigs) - 1\<rparr>, entries_trace L net self sigs tr1)"
    using sg ne loop valid cnt by (simp add: transactions_body_def new_TransactionList_def)
  then have "get_wallet_transactions L net self a limit tr =
      (Inr \<lparr>wallet_address = a, transactions = survivors outs,
            count = int (length sigs) - 1\<rparr>, entries_trace L net self sigs tr1)"
    using a by (simp add: get_wallet_transactions_def)
  with m l have first: "\<exists>ts. get_wallet_transactions L net self a limit tr =
        (Inr \<lparr>wallet_address = a, transactions = ts, count = int (length sigs) - 1\<rparr>,
         entries_trace L net self sigs tr1)
      \<and> length ts = length sigs - 1
      \<and> map (\<lambda>t. Inr (Some t)) ts = take i outs @ drop (Suc i) outs"
    by blast
  from first none_detail_skipped show ?thesis by blast
qed

theorem one_failed_entry_is_skipped_witness:
  "get_wallet_transactions strict_library wallet_network default_client example_address 10 [] =
     (Inr \<lparr>wallet_address = example_address,
          transactions =
            [\<lparr>signature = ''S1'', block_time = Datetime 1768000000000000, slot = 30,
              status = ''success'', fee = 5000\<rparr>,
             \<lparr>signature = ''S3'', block_time = Datetime 0, slot = 10,
              status = ''success'', fee = 5000\<rparr>],
          count = 2\<rparr>,
      [rpc_payload ''getSignaturesForAddress''
         [JStr example_address, JObj [(''limit'', JInt 10)]],
       rpc_payload ''getTransaction'' [JStr ''S1'', JObj [(''encoding'', JStr ''json'')]],
       rpc_payload ''getTransaction'' [JStr ''S2'', JObj [(''encoding'', JStr ''json'')]],
       rpc_payload ''getTransaction'' [JStr ''S3'', JObj [(''encoding'', JStr ''json'')]]])"
proof -
  have objs: "\<forall>sd\<in>set three_entries. is_object sd"
    by (simp add: three_entries_def signature_entry_def)
  have len: "length three_entries = 3"
    by (simp add: three_entries_def)
  have i: "1 < length three_entries"
    by (simp add: len)
  have bad: "isl (entry_outcomes strict_library wallet_network default_client three_entries
        [rpc_payload ''getSignaturesForAddress''
           [JStr example_address, JObj [(''limit'', JInt 10)]]] ! 1)
    \<or> entry_outcomes strict_library wallet_network default_client three_entries
        [rpc_payload ''getSignaturesForAddress''
           [JStr example_address, JObj [(''limit'', JInt 10)]]] ! 1 = Inr None"
    by (simp add: wallet_network_outcomes)
  have good: "\<forall>j<length three_entries. j \<noteq> 1 \<longrightarrow>
      (\<exists>t. entry_outcomes strict_library wallet_network default_client three_entries
        [rpc_payload ''getSignaturesForAddress''
           [JStr example_address, JObj [(''limit'', JInt 10)]]] ! j = Inr (Some t))"
    by (auto simp: wallet_network_outcomes len less_Suc_eq numeral_3_eq_3)
  from one_failed_entry_is_skipped
    [OF example_address_valid wallet_network_history objs refl i bad good]
  show ?thesis
    by (auto simp: wallet_network_outcomes len map_eq_Cons_conv)
qed

lemma malformed_network_signatures:
  "call_rpc malformed_network default_client ''getSignaturesForAddress'' (Some ps) tr =
   (Inr (JArr [signature_entry ''S1'' 30 (JInt 1768000000), JInt 7,
               signature_entry ''S3'' 10 JNull]),
    tr @ [rpc_payload ''getSignaturesForAddress'' ps])"
  by (simp add: call_rpc_loop_eq call_rpc_loop.simps default_client_def malformed_network_def
      rpc_result_def rpc_payload_def check_rpc_errors_def)

lemma malformed_network_transaction:
  "call_rpc malformed_network default_client ''getTransaction'' (Some ps) tr =
   (Inr (transaction_detail 5000 JNull), tr @ [rpc_payload ''getTransaction'' ps])"
  by (simp add: call_rpc_loop_eq call_rpc_loop.simps default_client_def malformed_network_def
      rpc_result_def rpc_payload_def check_rpc_errors_def)

lemma malformed_network_first_entry:
  "process_signature strict_library malformed_network default_client
     (signature_entry ''S1'' 30 (JInt 1768000000)) tr =
   (Inr (Some \<lparr>signature = ''S1'', block_time = Datetime 1768000000000000, slot = 30,
               status = ''success'', fee = 5000\<rparr>),
    tr @ [rpc_payload ''getTransaction'' [JStr ''S1'', JObj [(''encoding'', JStr ''json'')]]])"
  by (simp add: process_signature_def get_transaction_details_def signature_entry_def
      malformed_network_transaction build_transaction_def transaction_detail_def
      timestamp_to_datetime_def int_timestamp_def MIN_TIMESTAMP_def MAX_TIMESTAMP_def
      new_Transaction_def strict_library_def)

text \<open>
  Claim C3 does not hold for an entry whose own processing raises before the detail fetch.
  The signature lookup returns three entries, the second of which is the number 7. Its
  \<open>sig_data.get("signature")\<close> raises in the inner \<open>try\<close>; the handler of that \<open>try\<close>
  calls \<open>sig_data.get('signature')\<close> again for its log line, which raises inside the
  handler; the loop is left, the third entry is never fetched, and the request is
  answered with the status 500 instead of the two surviving records.
\<close>

theorem malformed_entry_aborts_history:
  "get_wallet_transactions strict_library malformed_network default_client example_address 10 [] =
     (Inl (HTTPException 500 (InternalError AttributeError)),
      [rpc_payload ''getSignaturesForAddress''
         [JStr example_address, JObj [(''limit'', JInt 10)]],
       rpc_payload ''getTransaction'' [JStr ''S1'', JObj [(''encoding'', JStr ''json'')]]])
   \<and> process_signature strict_library malformed_network default_client (JInt 7)
       [rpc_payload ''getSignaturesForAddress''
          [JStr example_address, JObj [(''limit'', JInt 10)]],
        rpc_payload ''getTransaction'' [JStr ''S1'', JObj [(''encoding'', JStr ''json'')]]] =
     (Inl AttributeError,
      [rpc_payload ''getSignaturesForAddress''
         [JStr example_address, JObj [(''limit'', JInt 10)]],
       rpc_payload ''getTransaction'' [JStr ''S1'', JObj [(''encoding'', JStr ''json'')]]])"
proof -
  have len: "example_address \<noteq> []" "\<not> length example_address < 32"
    "\<not> 44 < length example_address"
    using validate_address_length [OF example_address_valid] by simp_all
  have bad: "process_signature strict_library malformed_network default_client (JInt 7) tr =
      (Inl AttributeError, tr)" for tr
    by (simp add: process_signature_def)
  have "get_wallet_transactions strict_library malformed_network default_client
      example_address 10 [] =
     (Inl (HTTPException 500 (InternalError AttributeError)),
      [rpc_payload ''getSignaturesForAddress''
         [JStr example_address, JObj [(''limit'', JInt 10)]],
       rpc_payload ''getTransaction'' [JStr ''S1'', JObj [(''encoding'', JStr ''json'')]]])"
    using len
    by (simp add: get_wallet_transactions_def transactions_body_def get_signatures_def
        malformed_network_signatures malformed_network_first_entry bad)
  with bad show ?thesis by simp
qed

end
